theory Spec2Isabelle
  imports Main "HOL-Library.Sublist"
begin

section \<open>Data model\<close>

text \<open>
  The development embeds \<^verbatim>\<open>packages/ajax/src/interceptors/cacheInterceptors.js\<close>: the
  request interceptor (admission) and the response interceptor (capture) of the ajax cache.

  Numbers are byte counts and durations, modelled as natural numbers; a property that is
  \<^verbatim>\<open>undefined\<close> is \<open>None\<close>. JavaScript truthiness of an optional number is \<open>truthy\<close>:
  \<^verbatim>\<open>undefined\<close> and \<^verbatim>\<open>0\<close> are falsy.
\<close>

type_synonym requestId = string

definition truthy :: "nat option \<Rightarrow> bool" where
  "truthy n = (case n of None \<Rightarrow> False | Some v \<Rightarrow> v \<noteq> 0)"

text \<open>
  The options object as a caller writes it: every property may be absent. The
  \<^verbatim>\<open>requestIdFunction\<close> reads the method and the target of a request.
\<close>

record partialCacheOptions =
  p_useCache :: "bool option"
  p_requestIdFunction :: "(string \<Rightarrow> string \<Rightarrow> requestId) option"
  p_methods :: "string list option"
  p_contentTypes :: "string list option"
  p_maxAge :: "nat option"
  p_maxResponseSize :: "nat option"
  p_maxCacheSize :: "nat option"

text \<open>
  Modelled from the spec: the type \<^verbatim>\<open>CacheOptions\<close> of \<^verbatim>\<open>types/types.js\<close> is not part of
  the sources. The resolved options follow the data model of the specification:
  \<^verbatim>\<open>useCache\<close>, \<^verbatim>\<open>requestIdFunction\<close> and \<^verbatim>\<open>methods\<close> are always present, the other four
  properties are optional.
\<close>

record cacheOptions =
  useCache :: bool
  requestIdFunction :: "string \<Rightarrow> string \<Rightarrow> requestId"
  methods :: "string list"
  contentTypes :: "string list option"
  maxAge :: "nat option"
  maxResponseSize :: "nat option"
  maxCacheSize :: "nat option"

text \<open>Resolved options seen again as an options object (all properties present).\<close>

definition asPartial :: "cacheOptions \<Rightarrow> partialCacheOptions" where
  "asPartial c =
     \<lparr> p_useCache = Some (useCache c),
       p_requestIdFunction = Some (requestIdFunction c),
       p_methods = Some (methods c),
       p_contentTypes = contentTypes c,
       p_maxAge = maxAge c,
       p_maxResponseSize = maxResponseSize c,
       p_maxCacheSize = maxCacheSize c \<rparr>"

text \<open>
  The object spread \<^verbatim>\<open>{ ...globalCacheOptions, ...request.cacheOptions }\<close>: a property of
  the second object wins when it is present; spreading \<^verbatim>\<open>undefined\<close> adds nothing.
\<close>

definition orElse :: "'a option \<Rightarrow> 'a option \<Rightarrow> 'a option" where
  "orElse a b = (case a of Some x \<Rightarrow> Some x | None \<Rightarrow> b)"

definition spread :: "partialCacheOptions \<Rightarrow> partialCacheOptions option \<Rightarrow> partialCacheOptions" where
  "spread g r =
     (case r of
        None \<Rightarrow> g
      | Some q \<Rightarrow>
          \<lparr> p_useCache = orElse (p_useCache q) (p_useCache g),
            p_requestIdFunction = orElse (p_requestIdFunction q) (p_requestIdFunction g),
            p_methods = orElse (p_methods q) (p_methods g),
            p_contentTypes = orElse (p_contentTypes q) (p_contentTypes g),
            p_maxAge = orElse (p_maxAge q) (p_maxAge g),
            p_maxResponseSize = orElse (p_maxResponseSize q) (p_maxResponseSize g),
            p_maxCacheSize = orElse (p_maxCacheSize q) (p_maxCacheSize g) \<rparr>)"

text \<open>
  A request carries its method and target, and the two properties the request interceptor
  attaches: the resolved options and the session identifier.
\<close>

record request =
  "method" :: string
  url :: string
  cacheOptions :: "partialCacheOptions option"
  cacheSessionId :: "string option"

text \<open>
  A response: \<open>contentType\<close> and \<open>contentLength\<close> are the values of
  \<^verbatim>\<open>headers.get('Content-Type')\<close> and \<^verbatim>\<open>headers.get('Content-Length')\<close> (\<open>None\<close> when the header
  is absent), \<open>body\<close> the bytes of the body, \<open>request\<close> and \<open>fromCache\<close> the two properties
  the cache layer sets on the object (an unset \<^verbatim>\<open>fromCache\<close> is falsy).
\<close>

record response =
  contentType :: "string option"
  contentLength :: "string option"
  body :: string
  request :: "request option"
  fromCache :: bool

text \<open>
  \<^verbatim>\<open>Response.clone()\<close> of the platform copies headers and body into a new object; the
  properties added by the cache layer are not part of the copy.
\<close>

definition clone :: "response \<Rightarrow> response" where
  "clone r = r\<lparr> request := None, fromCache := False \<rparr>"

section \<open>Shared state of the cache manager\<close>

text \<open>
  Modelled from the spec: the cache entry kept by \<^verbatim>\<open>ajaxCache\<close> of \<^verbatim>\<open>cacheManager.js\<close>, which
  is not part of the sources. An entry holds the stored response, its byte size and its
  insertion time.
\<close>

record cacheEntry =
  entryResponse :: response
  entrySize :: nat
  createdAt :: nat

text \<open>
  Modelled from the spec: the process-wide state of \<^verbatim>\<open>cacheManager.js\<close>, which is not part of
  the sources: the current session identifier, the keys with a pending request (at most one
  pending entry per key), the cache entries (at most one per key), and the clock.
\<close>

record env =
  currentSessionId :: "string option"
  pendingRequestStore :: "requestId set"
  ajaxCache :: "(requestId \<times> cacheEntry) list"
  now :: nat

text \<open>
  Modelled from the spec: \<^verbatim>\<open>resetCacheSession\<close> of \<^verbatim>\<open>cacheManager.js\<close> is not part of the
  sources. It unconditionally overwrites the process-wide session identifier.
\<close>

definition resetCacheSession :: "string \<Rightarrow> env \<Rightarrow> env" where
  "resetCacheSession sid e = e\<lparr> currentSessionId := Some sid \<rparr>"

text \<open>
  Modelled from the spec: \<^verbatim>\<open>isCurrentSessionId\<close> of \<^verbatim>\<open>cacheManager.js\<close> is not part of the
  sources. It is equality with the process-wide identifier at the instant of the call.
\<close>

definition isCurrentSessionId :: "env \<Rightarrow> string option \<Rightarrow> bool" where
  "isCurrentSessionId e sid = (currentSessionId e = sid)"

text \<open>
  Modelled from the spec: \<^verbatim>\<open>pendingRequestStore.get\<close> of \<^verbatim>\<open>cacheManager.js\<close> is not part of
  the sources. It gives the waitable entry of a key, if there is one; here, whether there is.
\<close>

definition pendingGet :: "env \<Rightarrow> requestId \<Rightarrow> bool" where
  "pendingGet e k = (k \<in> pendingRequestStore e)"

text \<open>
  Modelled from the spec: \<^verbatim>\<open>pendingRequestStore.set\<close> of \<^verbatim>\<open>cacheManager.js\<close> is not part of
  the sources. It creates a waitable entry for the key.
\<close>

definition pendingSet :: "requestId \<Rightarrow> env \<Rightarrow> env" where
  "pendingSet k e = e\<lparr> pendingRequestStore := insert k (pendingRequestStore e) \<rparr>"

text \<open>
  Modelled from the spec: \<^verbatim>\<open>pendingRequestStore.resolve\<close> of \<^verbatim>\<open>cacheManager.js\<close> is not part
  of the sources. It wakes the waiters of the key and removes its entry; with no entry for the
  key it does nothing.
\<close>

definition pendingResolve :: "requestId \<Rightarrow> env \<Rightarrow> env" where
  "pendingResolve k e = e\<lparr> pendingRequestStore := pendingRequestStore e - {k} \<rparr>"

text \<open>
  Modelled from the spec: \<^verbatim>\<open>ajaxCache.get\<close> of \<^verbatim>\<open>cacheManager.js\<close> is not part of the
  sources. The stored response is returned only if the entry is no older than \<^verbatim>\<open>maxAge\<close> and
  no larger than \<^verbatim>\<open>maxResponseSize\<close>, for the limits that are set in this call; an entry that
  fails is reported absent and is not deleted.
\<close>

definition cacheGet :: "env \<Rightarrow> requestId \<Rightarrow> nat option \<Rightarrow> nat option \<Rightarrow> response option" where
  "cacheGet e k age maxSize =
     (case map_of (ajaxCache e) k of
        None \<Rightarrow> None
      | Some c \<Rightarrow>
          if (case age of None \<Rightarrow> True | Some a \<Rightarrow> now e \<le> createdAt c + a)
             \<and> (case maxSize of None \<Rightarrow> True | Some m \<Rightarrow> entrySize c \<le> m)
          then Some (entryResponse c) else None)"

text \<open>
  Modelled from the spec: the removal of the entry of a key from \<^verbatim>\<open>ajaxCache\<close> of
  \<^verbatim>\<open>cacheManager.js\<close>, which is not part of the sources.
\<close>

definition deleteKey :: "requestId \<Rightarrow> (requestId \<times> cacheEntry) list \<Rightarrow> (requestId \<times> cacheEntry) list" where
  "deleteKey k c = filter (\<lambda>p. fst p \<noteq> k) c"

text \<open>
  Modelled from the spec: \<^verbatim>\<open>ajaxCache.set\<close> of \<^verbatim>\<open>cacheManager.js\<close> is not part of the
  sources. It inserts the entry or overwrites the one of the same key, with the insertion
  time set to now. The entries are kept in the order of their insertion.
\<close>

definition cacheSet :: "requestId \<Rightarrow> response \<Rightarrow> nat \<Rightarrow> env \<Rightarrow> env" where
  "cacheSet k r sz e =
     e\<lparr> ajaxCache :=
          deleteKey k (ajaxCache e) @ [(k, \<lparr> entryResponse = r, entrySize = sz, createdAt = now e \<rparr>)] \<rparr>"

text \<open>
  Modelled from the spec: the running total size of \<^verbatim>\<open>ajaxCache\<close> of \<^verbatim>\<open>cacheManager.js\<close>,
  which is not part of the sources: the sum of the sizes of the entries.
\<close>

definition totalSize :: "(requestId \<times> cacheEntry) list \<Rightarrow> nat" where
  "totalSize c = sum_list (map (\<lambda>p. entrySize (snd p)) c)"

text \<open>
  Modelled from the spec: the eviction loop of \<^verbatim>\<open>ajaxCache.truncateTo\<close> of \<^verbatim>\<open>cacheManager.js\<close>,
  which is not part of the sources. On entries in the order of their insertion times, oldest
  first, the first entry is dropped while the total size exceeds the budget.
\<close>

fun evictOldest :: "nat \<Rightarrow> (requestId \<times> cacheEntry) list \<Rightarrow> (requestId \<times> cacheEntry) list" where
  "evictOldest budget [] = []"
| "evictOldest budget (p # ps) =
     (if totalSize (p # ps) \<le> budget then p # ps else evictOldest budget ps)"

text \<open>
  Modelled from the spec: \<^verbatim>\<open>ajaxCache.truncateTo\<close> of \<^verbatim>\<open>cacheManager.js\<close> is not part of the
  sources. It evicts entries, oldest insertion first, until the total size is within the
  budget or the cache is empty; of two entries with the same insertion time the one inserted
  first is the older (the sort is stable).
\<close>

definition cacheTruncateTo :: "nat \<Rightarrow> env \<Rightarrow> env" where
  "cacheTruncateTo budget e =
     e\<lparr> ajaxCache := evictOldest budget (sort_key (\<lambda>p. createdAt (snd p)) (ajaxCache e)) \<rparr>"

text \<open>
  Modelled from the spec: \<^verbatim>\<open>invalidateMatchingCache\<close> of \<^verbatim>\<open>cacheManager.js\<close> is not part of
  the sources. It removes the cache entry stored under exactly this key.
\<close>

definition invalidateMatchingCache :: "requestId \<Rightarrow> env \<Rightarrow> env" where
  "invalidateMatchingCache k e = e\<lparr> ajaxCache := deleteKey k (ajaxCache e) \<rparr>"

section \<open>Calls, errors and suspended computations\<close>

text \<open>
  Every call an interceptor makes to the shared state (and every materialisation of a
  response body) is recorded, in order, next to the state it leaves behind.
\<close>

datatype call =
    ResetCacheSession string
  | InvalidateMatchingCache requestId
  | PendingGet requestId
  | PendingSet requestId
  | PendingResolve requestId
  | IsCurrentSessionId "string option"
  | CacheGet requestId "nat option" "nat option"
  | CacheSet requestId response nat
  | CacheTruncateTo nat
  | Blob

text \<open>
  What is thrown: an \<^verbatim>\<open>Error\<close> with its message, or the \<^verbatim>\<open>TypeError\<close> of the platform.
\<close>

datatype error = Error string | TypeError

text \<open>
  Both interceptors are \<^verbatim>\<open>async\<close> functions. At an \<^verbatim>\<open>await\<close> the function is suspended and
  other tasks may change the shared state before it runs again: a suspended computation is
  \<open>Await w e tr k\<close>, with \<open>w\<close> what is awaited, \<open>e\<close> the shared state and \<open>tr\<close> the calls made
  when it suspends, and \<open>k\<close> the rest of the function, run on the shared state found when it
  wakes. \<open>Done v e tr\<close> is a settled promise: \<open>Inr\<close> the value, \<open>Inl\<close> the error thrown.
\<close>

datatype waitable = CacheIdPromise | PendingRequest requestId | ResponseSizePromise

datatype 'a task =
    Done "error + 'a" env "call list"
  | Await waitable env "call list" "env \<Rightarrow> 'a task"

text \<open>
  \<open>run sched t\<close> runs \<open>t\<close> to its end when every awaited promise settles and \<open>sched w e\<close>
  is the shared state the other tasks leave when the wait for \<open>w\<close>, begun in \<open>e\<close>, ends.
\<close>

primrec run :: "(waitable \<Rightarrow> env \<Rightarrow> env) \<Rightarrow> 'a task \<Rightarrow> (error + 'a) \<times> env \<times> call list" where
  "run sched (Done v e tr) = (v, e, tr)"
| "run sched (Await w e tr k) = run sched (k (sched w e))"

text \<open>
  \<open>advance settled t\<close> runs \<open>t\<close> while the promises it awaits are settled: \<open>settled w e\<close> is
  \<open>None\<close> while \<open>w\<close> is unsettled, and the task then stays suspended on it.
\<close>

primrec advance :: "(waitable \<Rightarrow> env \<Rightarrow> env option) \<Rightarrow> 'a task \<Rightarrow> 'a task" where
  "advance settled (Done v e tr) = Done v e tr"
| "advance settled (Await w e tr k) =
     (case settled w e of None \<Rightarrow> Await w e tr k | Some e' \<Rightarrow> advance settled (k e'))"

text \<open>What a task is suspended on, and the calls and the shared state of a task.\<close>

primrec waitingOn :: "'a task \<Rightarrow> waitable option" where
  "waitingOn (Done v e tr) = None"
| "waitingOn (Await w e tr k) = Some w"

primrec callsOf :: "'a task \<Rightarrow> call list" where
  "callsOf (Done v e tr) = tr"
| "callsOf (Await w e tr k) = tr"

primrec envOf :: "'a task \<Rightarrow> env" where
  "envOf (Done v e tr) = e"
| "envOf (Await w e tr k) = e"

section \<open>Helpers of the interceptors\<close>

definition toLowerCaseChar :: "char \<Rightarrow> char" where
  "toLowerCaseChar c =
     (let n = (of_char c :: nat) in if 65 \<le> n \<and> n \<le> 90 then char_of (n + 32) else c)"

definition toLowerCase :: "string \<Rightarrow> string" where
  "toLowerCase s = map toLowerCaseChar s"

definition isMethodSupported :: "string list \<Rightarrow> string \<Rightarrow> bool" where
  "isMethodSupported ms m = (toLowerCase m \<in> set ms)"

text \<open>\<^verbatim>\<open>String(v)\<close> of a header value: \<^verbatim>\<open>null\<close> becomes the text \<^verbatim>\<open>null\<close>.\<close>

definition String_js :: "string option \<Rightarrow> string" where
  "String_js v = (case v of None \<Rightarrow> ''null'' | Some s \<Rightarrow> s)"

fun includes_js :: "string \<Rightarrow> string \<Rightarrow> bool" where
  "includes_js [] sub = (sub = [])"
| "includes_js (c # cs) sub = (prefix sub (c # cs) \<or> includes_js cs sub)"

text \<open>
  \<^verbatim>\<open>!!contentTypes.find(...)\<close>: the first matching element, read as a boolean; the empty
  text is falsy.
\<close>

definition isResponseContentTypeSupported :: "response \<Rightarrow> string list option \<Rightarrow> bool" where
  "isResponseContentTypeSupported r cts =
     (case cts of
        None \<Rightarrow> True
      | Some l \<Rightarrow>
          (case find (\<lambda>ct. includes_js (String_js (contentType r)) ct) l of
             None \<Rightarrow> False
           | Some ct \<Rightarrow> ct \<noteq> []))"

text \<open>
  The state of the body of a response handed to the response interceptor: readable; unusable
  (used or locked), so that \<^verbatim>\<open>Response.clone()\<close> throws a \<^verbatim>\<open>TypeError\<close>; or broken, so
  that the clone succeeds and reading the body fails (\<^verbatim>\<open>blob()\<close> rejects with a
  \<^verbatim>\<open>TypeError\<close>). The responses kept in the cache are clones that nothing reads: cloning them
  again (line 114) succeeds.
\<close>

datatype bodyState = Readable | Unusable | Broken

definition cloneResult :: "bodyState \<Rightarrow> response \<Rightarrow> error + response" where
  "cloneResult bs r = (if bs = Unusable then Inl TypeError else Inr (clone r))"

text \<open>\<^verbatim>\<open>(await c.blob()).size\<close> for a clone \<open>c\<close> of a response whose body is in state \<open>bs\<close>.\<close>

definition blobSize :: "bodyState \<Rightarrow> response \<Rightarrow> error + nat" where
  "blobSize bs c = (if bs = Broken then Inl TypeError else Inr (length (body c)))"

definition valueOf :: "nat option \<Rightarrow> nat" where
  "valueOf n = (case n of None \<Rightarrow> 0 | Some v \<Rightarrow> v)"

text \<open>
  \<^verbatim>\<open>Number(response.headers.get('Content-Length'))\<close>. The conversion \<^verbatim>\<open>Number\<close> of the platform,
  applied to the text of a header, is a parameter of the model: \<open>None\<close> is \<^verbatim>\<open>NaN\<close>.
  An absent header is \<^verbatim>\<open>null\<close>, and \<^verbatim>\<open>Number(null)\<close> is \<open>0\<close>. Sizes are natural numbers: a
  header text that reads as a negative, fractional or infinite number is outside the model.
\<close>

definition headerSize :: "(string \<Rightarrow> nat option) \<Rightarrow> response \<Rightarrow> nat option" where
  "headerSize Number r = (case contentLength r of None \<Rightarrow> Some 0 | Some s \<Rightarrow> Number s)"

text \<open>
  \<^verbatim>\<open>Number(header) || (await response.clone().blob()).size || 0\<close>: the response is cloned and
  the body materialised only when the header gives a falsy number.
\<close>

definition getResponseSize :: "(string \<Rightarrow> nat option) \<Rightarrow> bodyState \<Rightarrow> response \<Rightarrow> error + nat" where
  "getResponseSize Number bs r =
     (if truthy (headerSize Number r) then Inr (valueOf (headerSize Number r))
      else
        (case cloneResult bs r of
           Inl err \<Rightarrow> Inl err
         | Inr c \<Rightarrow>
             (case blobSize bs c of
                Inl err \<Rightarrow> Inl err
              | Inr n \<Rightarrow> Inr (if n \<noteq> 0 then n else 0))))"

text \<open>The body is materialised when \<^verbatim>\<open>blob()\<close> is called, that is when the clone succeeded.\<close>

definition getResponseSizeCalls :: "(string \<Rightarrow> nat option) \<Rightarrow> bodyState \<Rightarrow> response \<Rightarrow> call list" where
  "getResponseSizeCalls Number bs r =
     (if truthy (headerSize Number r) then []
      else (case cloneResult bs r of Inl err \<Rightarrow> [] | Inr c \<Rightarrow> [Blob]))"

definition isResponseSizeSupported :: "nat \<Rightarrow> nat option \<Rightarrow> bool" where
  "isResponseSizeSupported responseSize maxSize =
     (if \<not> truthy maxSize then True
      else if responseSize = 0 then True
      else responseSize \<le> valueOf maxSize)"

section \<open>The request interceptor\<close>

text \<open>
  \<^verbatim>\<open>getCacheId()\<close> returns the session identifier itself or a promise of it. The two
  functions of \<^verbatim>\<open>cacheManager.js\<close> that do not touch the shared state are parameters of the
  model: \<open>validateCacheOptions\<close> gives the message of the error it throws (\<open>None\<close> when the
  options are valid), and \<open>extendCacheOptions\<close> resolves an options object.
\<close>

datatype cacheIdResult = Direct string | Promised string

datatype requestOrResponse = Request request | Response response

text \<open>
  \<^verbatim>\<open>extendCacheOptions({ ...globalCacheOptions, ...request.cacheOptions })\<close>, as both
  interceptors resolve the options of a request.
\<close>

definition resolveOptions ::
  "(partialCacheOptions \<Rightarrow> cacheOptions) \<Rightarrow> partialCacheOptions \<Rightarrow> request \<Rightarrow> cacheOptions" where
  "resolveOptions extendCacheOptions globalCacheOptions req =
     extendCacheOptions (spread globalCacheOptions (cacheOptions req))"

text \<open>\<^verbatim>\<open>requestIdFunction(request)\<close>.\<close>

definition requestIdOf :: "cacheOptions \<Rightarrow> request \<Rightarrow> requestId" where
  "requestIdOf opts req = requestIdFunction opts (method req) (url req)"

text \<open>Lines 83 and 84: the resolved options and the session identifier are stored in the request.\<close>

definition attach :: "cacheOptions \<Rightarrow> string \<Rightarrow> request \<Rightarrow> request" where
  "attach opts sid req = req\<lparr> cacheOptions := Some (asPartial opts), cacheSessionId := Some sid \<rparr>"

text \<open>Lines 109 to 122: read the cache, serve a hit, or mark the request as pending.\<close>

definition serveOrLead ::
  "cacheOptions \<Rightarrow> request \<Rightarrow> requestId \<Rightarrow> call list \<Rightarrow> env \<Rightarrow> requestOrResponse task" where
  "serveOrLead opts req rid tr e =
     (let tr1 = tr @ [CacheGet rid (maxAge opts) (maxResponseSize opts)];
          miss = Done (Inr (Request req)) (pendingSet rid e) (tr1 @ [PendingSet rid])
      in case cacheGet e rid (maxAge opts) (maxResponseSize opts) of
           None \<Rightarrow> miss
         | Some cachedResponse \<Rightarrow>
             if isResponseContentTypeSupported cachedResponse (contentTypes opts)
             then
               (let req1 = req\<lparr> cacheOptions :=
                             (case cacheOptions req of
                                None \<Rightarrow>
                                  Some \<lparr> p_useCache = Some False, p_requestIdFunction = None,
                                         p_methods = None, p_contentTypes = None, p_maxAge = None,
                                         p_maxResponseSize = None, p_maxCacheSize = None \<rparr>
                              | Some c \<Rightarrow> Some c) \<rparr>
                in Done (Inr (Response ((clone cachedResponse)\<lparr> request := Some req1, fromCache := True \<rparr>)))
                     e tr1)
             else miss)"

text \<open>Lines 72 to 107, with the session identifier resolved.\<close>

definition admit ::
  "(partialCacheOptions \<Rightarrow> cacheOptions) \<Rightarrow> partialCacheOptions \<Rightarrow> string \<Rightarrow> request \<Rightarrow> env
     \<Rightarrow> requestOrResponse task" where
  "admit extendCacheOptions globalCacheOptions sid request0 e0 =
     (let e1 = resetCacheSession sid e0;
          tr1 = [ResetCacheSession sid];
          opts = resolveOptions extendCacheOptions globalCacheOptions request0;
          req = attach opts sid request0
      in if \<not> useCache opts then Done (Inr (Request req)) e1 tr1
         else
           (let rid = requestIdOf opts req
            in if \<not> isMethodSupported (methods opts) (method req)
               then Done (Inr (Request req)) (invalidateMatchingCache rid e1)
                      (tr1 @ [InvalidateMatchingCache rid])
               else if pendingGet e1 rid
               then Await (PendingRequest rid) e1 (tr1 @ [PendingGet rid])
                      (\<lambda>e2.
                         (let tr2 = tr1 @ [PendingGet rid, IsCurrentSessionId (cacheSessionId req)]
                          in if \<not> isCurrentSessionId e2 (cacheSessionId req)
                             then Done (Inr (Request req)) e2 tr2
                             else serveOrLead opts req rid tr2 e2))
               else serveOrLead opts req rid (tr1 @ [PendingGet rid]) e1))"

definition cacheRequestInterceptor ::
  "(partialCacheOptions option \<Rightarrow> string option) \<Rightarrow> (partialCacheOptions \<Rightarrow> cacheOptions)
     \<Rightarrow> cacheIdResult \<Rightarrow> partialCacheOptions \<Rightarrow> request \<Rightarrow> env \<Rightarrow> requestOrResponse task" where
  "cacheRequestInterceptor validateCacheOptions extendCacheOptions getCacheIdResult
       globalCacheOptions request0 e =
     (case validateCacheOptions (cacheOptions request0) of
        Some msg \<Rightarrow> Done (Inl (Error msg)) e []
      | None \<Rightarrow>
          (case getCacheIdResult of
             Direct sid \<Rightarrow> admit extendCacheOptions globalCacheOptions sid request0 e
           | Promised sid \<Rightarrow>
               Await CacheIdPromise e []
                 (admit extendCacheOptions globalCacheOptions sid request0)))"

section \<open>The response interceptor\<close>

text \<open>
  Lines 147 to 165, with the response size at hand. In \<^verbatim>\<open>ajaxCache.set(requestId,
  response.clone(), responseSize)\<close> the clone is made before the call: when it throws, nothing
  is stored and \<^verbatim>\<open>resolve\<close> is not reached.
\<close>

definition capture ::
  "cacheOptions \<Rightarrow> bodyState \<Rightarrow> response \<Rightarrow> request \<Rightarrow> requestId \<Rightarrow> nat \<Rightarrow> call list \<Rightarrow> env
     \<Rightarrow> response task" where
  "capture opts bs resp req rid responseSize tr e =
     (let tr1 = tr @ [IsCurrentSessionId (cacheSessionId req)]
      in if isCurrentSessionId e (cacheSessionId req)
            \<and> isResponseContentTypeSupported resp (contentTypes opts)
            \<and> isResponseSizeSupported responseSize (maxResponseSize opts)
         then
           (case cloneResult bs resp of
              Inl err \<Rightarrow> Done (Inl err) e tr1
            | Inr c \<Rightarrow>
                (let e1 = cacheSet rid c responseSize e;
                     tr2 = tr1 @ [CacheSet rid c responseSize]
                 in if truthy (maxCacheSize opts)
                    then Done (Inr resp)
                           (pendingResolve rid (cacheTruncateTo (valueOf (maxCacheSize opts)) e1))
                           (tr2 @ [CacheTruncateTo (valueOf (maxCacheSize opts)), PendingResolve rid])
                    else Done (Inr resp) (pendingResolve rid e1) (tr2 @ [PendingResolve rid])))
         else Done (Inr resp) (pendingResolve rid e) (tr1 @ [PendingResolve rid]))"

text \<open>
  The response interceptor, for a response whose body is in state \<open>bs\<close>. A rejected
  \<^verbatim>\<open>getResponseSize\<close> is thrown by the \<^verbatim>\<open>await\<close> of line 145.
\<close>

definition cacheResponseInterceptor ::
  "(partialCacheOptions \<Rightarrow> cacheOptions) \<Rightarrow> (string \<Rightarrow> nat option) \<Rightarrow> partialCacheOptions
     \<Rightarrow> bodyState \<Rightarrow> response \<Rightarrow> env \<Rightarrow> response task" where
  "cacheResponseInterceptor extendCacheOptions Number globalCacheOptions bs resp e =
     (case request resp of
        None \<Rightarrow> Done (Inl (Error ''Missing request in response'')) e []
      | Some req \<Rightarrow>
          (let opts = resolveOptions extendCacheOptions globalCacheOptions req
           in if \<not> fromCache resp \<and> isMethodSupported (methods opts) (method req)
              then
                (let rid = requestIdOf opts req
                 in if truthy (maxCacheSize opts) \<or> truthy (maxResponseSize opts)
                    then Await ResponseSizePromise e (getResponseSizeCalls Number bs resp)
                           (\<lambda>e'.
                              (case getResponseSize Number bs resp of
                                 Inl err \<Rightarrow> Done (Inl err) e' (getResponseSizeCalls Number bs resp)
                               | Inr responseSize \<Rightarrow>
                                   capture opts bs resp req rid responseSize
                                     (getResponseSizeCalls Number bs resp) e'))
                    else capture opts bs resp req rid 0 [] e)
              else Done (Inr resp) e []))"

section \<open>Notions used to state the properties\<close>

text \<open>The session identifier \<^verbatim>\<open>getCacheId()\<close> resolves to.\<close>

definition sessionIdOf :: "cacheIdResult \<Rightarrow> string" where
  "sessionIdOf g = (case g of Direct s \<Rightarrow> s | Promised s \<Rightarrow> s)"

text \<open>
  The shared state in which line 72 runs: the state of the call, or the state found after the
  wait for a promised session identifier.
\<close>

definition admitEnv :: "(waitable \<Rightarrow> env \<Rightarrow> env) \<Rightarrow> cacheIdResult \<Rightarrow> env \<Rightarrow> env" where
  "admitEnv sched g e = (case g of Direct s \<Rightarrow> e | Promised s \<Rightarrow> sched CacheIdPromise e)"

text \<open>
  The shared state in which the cache is read (line 109), given the state \<open>e1\<close> left by
  \<^verbatim>\<open>resetCacheSession\<close>: \<open>e1\<close> itself, or the state found after the wait for a pending request.
\<close>

definition lookupEnv :: "(waitable \<Rightarrow> env \<Rightarrow> env) \<Rightarrow> requestId \<Rightarrow> env \<Rightarrow> env" where
  "lookupEnv sched rid e1 = (if pendingGet e1 rid then sched (PendingRequest rid) e1 else e1)"

text \<open>Line 145: the size is measured only if one of the two limits is truthy.\<close>

definition sizeConfigured :: "cacheOptions \<Rightarrow> bool" where
  "sizeConfigured opts = (truthy (maxCacheSize opts) \<or> truthy (maxResponseSize opts))"

text \<open>
  The size \<^verbatim>\<open>getResponseSize\<close> gives when the body can be read: the number of the header
  when it is truthy, the length of the body otherwise.
\<close>

definition measuredSize :: "(string \<Rightarrow> nat option) \<Rightarrow> response \<Rightarrow> nat" where
  "measuredSize Number resp =
     (if truthy (headerSize Number resp) then valueOf (headerSize Number resp)
      else length (body resp))"

definition responseSizeOf :: "(string \<Rightarrow> nat option) \<Rightarrow> cacheOptions \<Rightarrow> response \<Rightarrow> nat" where
  "responseSizeOf Number opts resp = (if sizeConfigured opts then measuredSize Number resp else 0)"

text \<open>The shared state in which lines 147 to 163 run: after the wait for the size, if any.\<close>

definition captureEnv :: "(waitable \<Rightarrow> env \<Rightarrow> env) \<Rightarrow> cacheOptions \<Rightarrow> env \<Rightarrow> env" where
  "captureEnv sched opts e = (if sizeConfigured opts then sched ResponseSizePromise e else e)"

text \<open>
  Write-eligibility as the code decides it: the session is still current, the content type
  is whitelisted, and the size check passes, that is \<^verbatim>\<open>maxResponseSize\<close> is unset or zero, or
  the size is zero, or the size is at most \<^verbatim>\<open>maxResponseSize\<close>.
\<close>

definition eligible :: "cacheOptions \<Rightarrow> response \<Rightarrow> request \<Rightarrow> nat \<Rightarrow> env \<Rightarrow> bool" where
  "eligible opts resp req sz e =
     (isCurrentSessionId e (cacheSessionId req)
      \<and> isResponseContentTypeSupported resp (contentTypes opts)
      \<and> (\<not> truthy (maxResponseSize opts) \<or> sz = 0 \<or> sz \<le> valueOf (maxResponseSize opts)))"

text \<open>A request interceptor that has returned the request hands it to the network.\<close>

definition dispatched :: "requestOrResponse task \<Rightarrow> bool" where
  "dispatched t = (case t of Done (Inr (Request r)) e tr \<Rightarrow> True | _ \<Rightarrow> False)"

text \<open>
  The promises that settle while the request pending under \<open>rid\<close> is unresolved: every one
  but that request.
\<close>

definition whileUnresolved ::
  "requestId \<Rightarrow> (waitable \<Rightarrow> env \<Rightarrow> env) \<Rightarrow> waitable \<Rightarrow> env \<Rightarrow> env option" where
  "whileUnresolved rid sched w e = (if w = PendingRequest rid then None else Some (sched w e))"

section \<open>An example configuration\<close>

text \<open>
  Options are valid, \<^verbatim>\<open>extendCacheOptions\<close> fills in defaults (caching off, method
  \<^verbatim>\<open>get\<close>, the target as request identifier), and caching is switched on globally.
\<close>

definition exValidate :: "partialCacheOptions option \<Rightarrow> string option" where
  "exValidate p = None"

definition exExtend :: "partialCacheOptions \<Rightarrow> cacheOptions" where
  "exExtend p =
     \<lparr> useCache = (case p_useCache p of None \<Rightarrow> False | Some b \<Rightarrow> b),
       requestIdFunction = (case p_requestIdFunction p of None \<Rightarrow> (\<lambda>m u. u) | Some f \<Rightarrow> f),
       methods = (case p_methods p of None \<Rightarrow> [''get''] | Some ms \<Rightarrow> ms),
       contentTypes = p_contentTypes p,
       maxAge = p_maxAge p,
       maxResponseSize = p_maxResponseSize p,
       maxCacheSize = p_maxCacheSize p \<rparr>"

definition exNoOptions :: partialCacheOptions where
  "exNoOptions =
     \<lparr> p_useCache = None, p_requestIdFunction = None, p_methods = None, p_contentTypes = None,
       p_maxAge = None, p_maxResponseSize = None, p_maxCacheSize = None \<rparr>"

definition exGlobal :: partialCacheOptions where
  "exGlobal = exNoOptions\<lparr> p_useCache := Some True \<rparr>"

definition exGlobalSized :: partialCacheOptions where
  "exGlobalSized = exNoOptions\<lparr> p_useCache := Some True, p_maxCacheSize := Some 100 \<rparr>"

definition exGlobalZero :: partialCacheOptions where
  "exGlobalZero = exNoOptions\<lparr> p_useCache := Some True, p_maxResponseSize := Some 0 \<rparr>"

definition exGlobalZeroSized :: partialCacheOptions where
  "exGlobalZeroSized =
     exNoOptions\<lparr> p_useCache := Some True, p_maxResponseSize := Some 0, p_maxCacheSize := Some 100 \<rparr>"

definition exGlobalNoBudget :: partialCacheOptions where
  "exGlobalNoBudget = exNoOptions\<lparr> p_useCache := Some True, p_maxCacheSize := Some 0 \<rparr>"

text \<open>
  A reading of header texts for the examples: a text of decimal digits has its decimal value.
  The examples use the texts \<^verbatim>\<open>12\<close> and \<^verbatim>\<open>0\<close> only; the properties below hold for every
  reading.
\<close>

definition isDigit :: "char \<Rightarrow> bool" where
  "isDigit c = (let n = (of_char c :: nat) in 48 \<le> n \<and> n \<le> 57)"

definition exNumber :: "string \<Rightarrow> nat option" where
  "exNumber s =
     (if list_all isDigit s
      then Some (foldl (\<lambda>a c. 10 * a + (of_char c - 48)) 0 s)
      else None)"

definition exGet :: request where
  "exGet = \<lparr> method = ''GET'', url = ''/a'', cacheOptions = None, cacheSessionId = None \<rparr>"

definition exGetNoCache :: request where
  "exGetNoCache = exGet\<lparr> cacheOptions := Some (exNoOptions\<lparr> p_useCache := Some False \<rparr>) \<rparr>"

definition exPost :: request where
  "exPost = \<lparr> method = ''POST'', url = ''/a'', cacheOptions = None, cacheSessionId = None \<rparr>"

definition exResponse :: "request option \<Rightarrow> response" where
  "exResponse r =
     \<lparr> contentType = Some ''application/json'', contentLength = None, body = ''hello'',
       request = r, fromCache = False \<rparr>"

definition exEnv :: env where
  "exEnv = \<lparr> currentSessionId = None, pendingRequestStore = {}, ajaxCache = [], now = 7 \<rparr>"

text \<open>Other tasks that change nothing, and other tasks that switch the session.\<close>

definition exIdle :: "waitable \<Rightarrow> env \<Rightarrow> env" where
  "exIdle w e = e"

definition exSwitch :: "waitable \<Rightarrow> env \<Rightarrow> env" where
  "exSwitch w e = resetCacheSession ''s2'' e"

section \<open>Auxiliary facts\<close>

lemma isResponseSizeSupported_iff:
  "isResponseSizeSupported sz m = (\<not> truthy m \<or> sz = 0 \<or> sz \<le> valueOf m)"
  by (simp add: isResponseSizeSupported_def)

lemma attach_fields [simp]:
  "method (attach opts sid r) = method r"
  "url (attach opts sid r) = url r"
  "cacheSessionId (attach opts sid r) = Some sid"
  "cacheOptions (attach opts sid r) = Some (asPartial opts)"
  by (simp_all add: attach_def)

lemma requestIdOf_attach [simp]: "requestIdOf opts (attach o2 sid r) = requestIdOf opts r"
  by (simp add: requestIdOf_def)

lemma reset_fields [simp]:
  "pendingRequestStore (resetCacheSession sid e) = pendingRequestStore e"
  "ajaxCache (resetCacheSession sid e) = ajaxCache e"
  "currentSessionId (resetCacheSession sid e) = Some sid"
  "now (resetCacheSession sid e) = now e"
  by (simp_all add: resetCacheSession_def)

lemma run_request:
  "V (cacheOptions r) = None \<Longrightarrow>
   run sched (cacheRequestInterceptor V X g G r e)
     = run sched (admit X G (sessionIdOf g) r (admitEnv sched g e))"
  by (cases g) (simp_all add: cacheRequestInterceptor_def sessionIdOf_def admitEnv_def)

lemma advance_request:
  "V (cacheOptions r) = None \<Longrightarrow>
   advance (whileUnresolved rid sched) (cacheRequestInterceptor V X g G r e)
     = advance (whileUnresolved rid sched) (admit X G (sessionIdOf g) r (admitEnv sched g e))"
  by (cases g)
     (simp_all add: cacheRequestInterceptor_def sessionIdOf_def admitEnv_def whileUnresolved_def)

lemma admit_noCache:
  "\<not> useCache (resolveOptions X G r) \<Longrightarrow>
   admit X G sid r e0 =
     Done (Inr (Request (attach (resolveOptions X G r) sid r)))
       (resetCacheSession sid e0) [ResetCacheSession sid]"
  by (simp add: admit_def Let_def)

lemma admit_unsupported:
  "useCache (resolveOptions X G r) \<Longrightarrow>
   \<not> isMethodSupported (methods (resolveOptions X G r)) (method r) \<Longrightarrow>
   admit X G sid r e0 =
     Done (Inr (Request (attach (resolveOptions X G r) sid r)))
       (invalidateMatchingCache (requestIdOf (resolveOptions X G r) r) (resetCacheSession sid e0))
       [ResetCacheSession sid, InvalidateMatchingCache (requestIdOf (resolveOptions X G r) r)]"
  by (simp add: admit_def Let_def)

lemma admit_not_pending:
  "useCache (resolveOptions X G r) \<Longrightarrow>
   isMethodSupported (methods (resolveOptions X G r)) (method r) \<Longrightarrow>
   requestIdOf (resolveOptions X G r) r \<notin> pendingRequestStore e0 \<Longrightarrow>
   admit X G sid r e0 =
     serveOrLead (resolveOptions X G r) (attach (resolveOptions X G r) sid r)
       (requestIdOf (resolveOptions X G r) r)
       [ResetCacheSession sid, PendingGet (requestIdOf (resolveOptions X G r) r)]
       (resetCacheSession sid e0)"
  by (simp add: admit_def Let_def pendingGet_def)

lemma run_admit_stale:
  "useCache (resolveOptions X G r) \<Longrightarrow>
   isMethodSupported (methods (resolveOptions X G r)) (method r) \<Longrightarrow>
   requestIdOf (resolveOptions X G r) r \<in> pendingRequestStore e0 \<Longrightarrow>
   \<not> isCurrentSessionId
        (sched (PendingRequest (requestIdOf (resolveOptions X G r) r)) (resetCacheSession sid e0))
        (Some sid) \<Longrightarrow>
   run sched (admit X G sid r e0) =
     (Inr (Request (attach (resolveOptions X G r) sid r)),
      sched (PendingRequest (requestIdOf (resolveOptions X G r) r)) (resetCacheSession sid e0),
      [ResetCacheSession sid, PendingGet (requestIdOf (resolveOptions X G r) r),
       IsCurrentSessionId (Some sid)])"
  by (simp add: admit_def Let_def pendingGet_def)

lemma run_admit_lookup:
  "useCache (resolveOptions X G r) \<Longrightarrow>
   isMethodSupported (methods (resolveOptions X G r)) (method r) \<Longrightarrow>
   (requestIdOf (resolveOptions X G r) r \<in> pendingRequestStore e0 \<longrightarrow>
      isCurrentSessionId
        (lookupEnv sched (requestIdOf (resolveOptions X G r) r) (resetCacheSession sid e0))
        (Some sid)) \<Longrightarrow>
   run sched (admit X G sid r e0) =
     run sched (serveOrLead (resolveOptions X G r) (attach (resolveOptions X G r) sid r)
       (requestIdOf (resolveOptions X G r) r)
       ([ResetCacheSession sid, PendingGet (requestIdOf (resolveOptions X G r) r)]
          @ (if requestIdOf (resolveOptions X G r) r \<in> pendingRequestStore e0
             then [IsCurrentSessionId (Some sid)] else []))
       (lookupEnv sched (requestIdOf (resolveOptions X G r) r) (resetCacheSession sid e0)))"
  by (simp add: admit_def Let_def pendingGet_def lookupEnv_def)

lemma serveOrLead_hit:
  "cacheGet e rid (maxAge opts) (maxResponseSize opts) = Some cr \<Longrightarrow>
   isResponseContentTypeSupported cr (contentTypes opts) \<Longrightarrow>
   serveOrLead opts (attach o2 sid r) rid tr e =
     Done (Inr (Response ((clone cr)\<lparr> request := Some (attach o2 sid r), fromCache := True \<rparr>))) e
       (tr @ [CacheGet rid (maxAge opts) (maxResponseSize opts)])"
  by (simp add: serveOrLead_def Let_def attach_def)

lemma serveOrLead_no_hit:
  "\<forall>cr. cacheGet e rid (maxAge opts) (maxResponseSize opts) = Some cr
      \<longrightarrow> \<not> isResponseContentTypeSupported cr (contentTypes opts) \<Longrightarrow>
   serveOrLead opts req rid tr e =
     Done (Inr (Request req)) (pendingSet rid e)
       (tr @ [CacheGet rid (maxAge opts) (maxResponseSize opts), PendingSet rid])"
  by (auto simp add: serveOrLead_def Let_def split: option.splits)

lemma advance_admit_pending:
  "useCache (resolveOptions X G r) \<Longrightarrow>
   isMethodSupported (methods (resolveOptions X G r)) (method r) \<Longrightarrow>
   requestIdOf (resolveOptions X G r) r \<in> pendingRequestStore e0 \<Longrightarrow>
   \<exists>k. advance (whileUnresolved (requestIdOf (resolveOptions X G r) r) sched) (admit X G sid r e0) =
     Await (PendingRequest (requestIdOf (resolveOptions X G r) r)) (resetCacheSession sid e0)
       [ResetCacheSession sid, PendingGet (requestIdOf (resolveOptions X G r) r)] k"
  by (simp add: admit_def Let_def pendingGet_def whileUnresolved_def)

lemma evictOldest_within_budget: "totalSize (evictOldest budget c) \<le> budget"
  by (induction c) (simp_all add: totalSize_def)

lemma cacheTruncateTo_within_budget: "totalSize (ajaxCache (cacheTruncateTo budget e)) \<le> budget"
  by (simp add: cacheTruncateTo_def evictOldest_within_budget)

lemma cache_after_resolve [simp]: "ajaxCache (pendingResolve k e) = ajaxCache e"
  by (simp add: pendingResolve_def)

lemma cloneResult_simps [simp]:
  "cloneResult Readable r = Inr (clone r)"
  "cloneResult Broken r = Inr (clone r)"
  "cloneResult Unusable r = Inl TypeError"
  by (simp_all add: cloneResult_def)

lemma getResponseSize_cases:
  "getResponseSize N bs r =
     (if truthy (headerSize N r) then Inr (valueOf (headerSize N r))
      else if bs = Readable then Inr (length (body r))
      else Inl TypeError)"
  by (cases bs) (simp_all add: getResponseSize_def blobSize_def clone_def)

lemma getResponseSize_readable: "getResponseSize N Readable r = Inr (measuredSize N r)"
  by (simp add: getResponseSize_cases measuredSize_def)

lemma Blob_in_sizeCalls:
  "(Blob \<in> set (getResponseSizeCalls N bs resp)) = (\<not> truthy (headerSize N resp) \<and> bs \<noteq> Unusable)"
  by (cases bs) (simp_all add: getResponseSizeCalls_def)

lemma sizeCalls_only_Blob: "c \<in> set (getResponseSizeCalls N bs resp) \<Longrightarrow> c = Blob"
  by (cases bs) (simp_all add: getResponseSizeCalls_def split: if_splits)

lemma run_capture:
  "run sched (capture opts bs resp req rid sz tr e) =
     (if eligible opts resp req sz e \<and> bs = Unusable
      then (Inl TypeError, e, tr @ [IsCurrentSessionId (cacheSessionId req)])
      else
        (Inr resp,
         pendingResolve rid
           (if eligible opts resp req sz e
            then (if truthy (maxCacheSize opts)
                  then cacheTruncateTo (valueOf (maxCacheSize opts)) (cacheSet rid (clone resp) sz e)
                  else cacheSet rid (clone resp) sz e)
            else e),
         tr @ [IsCurrentSessionId (cacheSessionId req)]
            @ (if eligible opts resp req sz e
               then CacheSet rid (clone resp) sz
                      # (if truthy (maxCacheSize opts)
                         then [CacheTruncateTo (valueOf (maxCacheSize opts))] else [])
               else [])
            @ [PendingResolve rid]))"
  by (cases bs) (auto simp add: capture_def Let_def eligible_def isResponseSizeSupported_iff)

lemma run_response:
  "request resp = Some req \<Longrightarrow> \<not> fromCache resp \<Longrightarrow>
   isMethodSupported (methods (resolveOptions X G req)) (method req) \<Longrightarrow>
   run sched (cacheResponseInterceptor X N G bs resp e) =
     (if sizeConfigured (resolveOptions X G req) \<and> \<not> truthy (headerSize N resp) \<and> bs \<noteq> Readable
      then (Inl TypeError, captureEnv sched (resolveOptions X G req) e,
            getResponseSizeCalls N bs resp)
      else run sched (capture (resolveOptions X G req) bs resp req
             (requestIdOf (resolveOptions X G req) req)
             (responseSizeOf N (resolveOptions X G req) resp)
             (if sizeConfigured (resolveOptions X G req) then getResponseSizeCalls N bs resp else [])
             (captureEnv sched (resolveOptions X G req) e)))"
  by (simp add: cacheResponseInterceptor_def Let_def responseSizeOf_def sizeConfigured_def
        captureEnv_def getResponseSize_cases measuredSize_def)

lemma response_skip:
  "request resp = Some req \<Longrightarrow>
   fromCache resp \<or> \<not> isMethodSupported (methods (resolveOptions X G req)) (method req) \<Longrightarrow>
   cacheResponseInterceptor X N G bs resp e = Done (Inr resp) e []"
  by (auto simp add: cacheResponseInterceptor_def Let_def)

lemma waitingOn_response:
  "request resp = Some req \<Longrightarrow> \<not> fromCache resp \<Longrightarrow>
   isMethodSupported (methods (resolveOptions X G req)) (method req) \<Longrightarrow>
   waitingOn (cacheResponseInterceptor X N G bs resp e) =
     (if sizeConfigured (resolveOptions X G req) then Some ResponseSizePromise else None)"
  by (cases bs) (simp_all add: cacheResponseInterceptor_def Let_def sizeConfigured_def capture_def)



text \<open>
  Scenario E of the specification: with a budget of 100, a 60-byte entry followed by another
  60-byte entry, inserted at the same time, leaves the second entry only.
\<close>

lemma truncateTo_scenario_E:
  "ajaxCache (cacheTruncateTo 100 (cacheSet ''/b'' r2 60 (cacheSet ''/a'' r1 60
       \<lparr> currentSessionId = None, pendingRequestStore = {}, ajaxCache = [], now = 7 \<rparr>)))
     = [(''/b'', \<lparr> entryResponse = r2, entrySize = 60, createdAt = 7 \<rparr>)]"
  by (simp add: cacheTruncateTo_def cacheSet_def deleteKey_def totalSize_def)

section \<open>Facts about the example configuration\<close>

lemma ex_get_supported: "isMethodSupported [''get''] ''GET''"
  by code_simp

lemma ex_post_unsupported: "\<not> isMethodSupported [''get''] ''POST''"
  by code_simp

lemma ex_json_supported: "isResponseContentTypeSupported (exResponse r) None"
  by (simp add: isResponseContentTypeSupported_def)

lemma ex_resolve_get [simp]:
  "useCache (resolveOptions exExtend exGlobal exGet)"
  "methods (resolveOptions exExtend exGlobal exGet) = [''get'']"
  "contentTypes (resolveOptions exExtend exGlobal exGet) = None"
  "maxAge (resolveOptions exExtend exGlobal exGet) = None"
  "maxResponseSize (resolveOptions exExtend exGlobal exGet) = None"
  "maxCacheSize (resolveOptions exExtend exGlobal exGet) = None"
  "requestIdOf (resolveOptions exExtend exGlobal exGet) r = url r"
  by (simp_all add: resolveOptions_def exExtend_def exGlobal_def exNoOptions_def exGet_def
        spread_def requestIdOf_def)

lemma ex_resolve_attached [simp]:
  "resolveOptions exExtend exGlobal (attach (resolveOptions exExtend exGlobal exGet) sid r)
     = resolveOptions exExtend exGlobal exGet"
  by (simp add: resolveOptions_def exExtend_def exGlobal_def exNoOptions_def exGet_def
        spread_def asPartial_def orElse_def)

lemma ex_resolve_post [simp]:
  "useCache (resolveOptions exExtend exGlobal exPost)"
  "methods (resolveOptions exExtend exGlobal exPost) = [''get'']"
  "requestIdOf (resolveOptions exExtend exGlobal exPost) r = url r"
  by (simp_all add: resolveOptions_def exExtend_def exGlobal_def exNoOptions_def exPost_def
        spread_def requestIdOf_def)

lemma ex_resolve_noCache [simp]:
  "\<not> useCache (resolveOptions exExtend exGlobal exGetNoCache)"
  "methods (resolveOptions exExtend exGlobal exGetNoCache) = [''get'']"
  "contentTypes (resolveOptions exExtend exGlobal exGetNoCache) = None"
  "maxResponseSize (resolveOptions exExtend exGlobal exGetNoCache) = None"
  "maxCacheSize (resolveOptions exExtend exGlobal exGetNoCache) = None"
  "requestIdOf (resolveOptions exExtend exGlobal exGetNoCache) r = url r"
  by (simp_all add: resolveOptions_def exExtend_def exGlobal_def exNoOptions_def exGet_def
        exGetNoCache_def spread_def requestIdOf_def orElse_def)

lemma ex_resolve_noCache_attached [simp]:
  "resolveOptions exExtend exGlobal (attach (resolveOptions exExtend exGlobal exGetNoCache) sid r)
     = resolveOptions exExtend exGlobal exGetNoCache"
  by (simp add: resolveOptions_def exExtend_def exGlobal_def exNoOptions_def exGet_def
        exGetNoCache_def spread_def asPartial_def orElse_def)

lemma ex_fields [simp]:
  "method exGet = ''GET''" "url exGet = ''/a''" "cacheOptions exGet = None"
  "method exPost = ''POST''" "url exPost = ''/a''" "cacheOptions exPost = None"
  "method exGetNoCache = ''GET''" "url exGetNoCache = ''/a''"
  "request (exResponse r) = r" "\<not> fromCache (exResponse r)"
  "contentLength (exResponse r) = None" "body (exResponse r) = ''hello''"
  "pendingRequestStore exEnv = {}" "ajaxCache exEnv = []" "currentSessionId exEnv = None"
  "now exEnv = 7"
  by (simp_all add: exGet_def exPost_def exGetNoCache_def exResponse_def exEnv_def)

lemma ex_resolve_sized [simp]:
  "useCache (resolveOptions exExtend exGlobalSized exGet)"
  "methods (resolveOptions exExtend exGlobalSized exGet) = [''get'']"
  "contentTypes (resolveOptions exExtend exGlobalSized exGet) = None"
  "maxResponseSize (resolveOptions exExtend exGlobalSized exGet) = None"
  "maxCacheSize (resolveOptions exExtend exGlobalSized exGet) = Some 100"
  "requestIdOf (resolveOptions exExtend exGlobalSized exGet) r = url r"
  "resolveOptions exExtend exGlobalSized (attach (resolveOptions exExtend exGlobalSized exGet) sid r)
     = resolveOptions exExtend exGlobalSized exGet"
  by (simp_all add: resolveOptions_def exExtend_def exGlobalSized_def exNoOptions_def exGet_def
        spread_def requestIdOf_def asPartial_def orElse_def)

lemma ex_resolve_zero [simp]:
  "useCache (resolveOptions exExtend exGlobalZero exGet)"
  "methods (resolveOptions exExtend exGlobalZero exGet) = [''get'']"
  "contentTypes (resolveOptions exExtend exGlobalZero exGet) = None"
  "maxResponseSize (resolveOptions exExtend exGlobalZero exGet) = Some 0"
  "maxCacheSize (resolveOptions exExtend exGlobalZero exGet) = None"
  "requestIdOf (resolveOptions exExtend exGlobalZero exGet) r = url r"
  "resolveOptions exExtend exGlobalZero (attach (resolveOptions exExtend exGlobalZero exGet) sid r)
     = resolveOptions exExtend exGlobalZero exGet"
  by (simp_all add: resolveOptions_def exExtend_def exGlobalZero_def exNoOptions_def exGet_def
        spread_def requestIdOf_def asPartial_def orElse_def)

lemma ex_resolve_zeroSized [simp]:
  "useCache (resolveOptions exExtend exGlobalZeroSized exGet)"
  "methods (resolveOptions exExtend exGlobalZeroSized exGet) = [''get'']"
  "contentTypes (resolveOptions exExtend exGlobalZeroSized exGet) = None"
  "maxResponseSize (resolveOptions exExtend exGlobalZeroSized exGet) = Some 0"
  "maxCacheSize (resolveOptions exExtend exGlobalZeroSized exGet) = Some 100"
  "requestIdOf (resolveOptions exExtend exGlobalZeroSized exGet) r = url r"
  "resolveOptions exExtend exGlobalZeroSized
       (attach (resolveOptions exExtend exGlobalZeroSized exGet) sid r)
     = resolveOptions exExtend exGlobalZeroSized exGet"
  by (simp_all add: resolveOptions_def exExtend_def exGlobalZeroSized_def exNoOptions_def exGet_def
        spread_def requestIdOf_def asPartial_def orElse_def)

lemma ex_resolve_noBudget [simp]:
  "useCache (resolveOptions exExtend exGlobalNoBudget exGet)"
  "methods (resolveOptions exExtend exGlobalNoBudget exGet) = [''get'']"
  "contentTypes (resolveOptions exExtend exGlobalNoBudget exGet) = None"
  "maxResponseSize (resolveOptions exExtend exGlobalNoBudget exGet) = None"
  "maxCacheSize (resolveOptions exExtend exGlobalNoBudget exGet) = Some 0"
  "requestIdOf (resolveOptions exExtend exGlobalNoBudget exGet) r = url r"
  "resolveOptions exExtend exGlobalNoBudget
       (attach (resolveOptions exExtend exGlobalNoBudget exGet) sid r)
     = resolveOptions exExtend exGlobalNoBudget exGet"
  by (simp_all add: resolveOptions_def exExtend_def exGlobalNoBudget_def exNoOptions_def exGet_def
        spread_def requestIdOf_def asPartial_def orElse_def)

lemma ex_number [simp]: "exNumber ''12'' = Some 12" "exNumber ''0'' = Some 0"
  by (simp_all add: exNumber_def isDigit_def)

lemma ex_clone [simp]:
  "clone (exResponse r) = exResponse None"
  "clone ((exResponse r)\<lparr> contentLength := h \<rparr>) = (exResponse None)\<lparr> contentLength := h \<rparr>"
  by (simp_all add: clone_def exResponse_def)

lemma ex_current [simp]: "isCurrentSessionId (resetCacheSession sid e) (Some sid)"
  by (simp add: isCurrentSessionId_def)

lemma ex_json_supported_header [simp]:
  "isResponseContentTypeSupported ((exResponse r)\<lparr> contentLength := h \<rparr>) None"
  by (simp add: isResponseContentTypeSupported_def)

section \<open>C1\<close>

text \<open>
  C1 (as amended). For every response with \<^verbatim>\<open>fromCache\<close> set that carries its request, the
  response interceptor settles at once with the response itself, leaves the shared state as
  it is and makes no call at all: nothing is stored, and \<^verbatim>\<open>pendingRequestStore.resolve\<close> is
  not called. This holds whatever the state of the body of the response.
\<close>

theorem C1_fromCache_makes_no_call:
  assumes "request resp = Some req" and "fromCache resp"
  shows "cacheResponseInterceptor X N G bs resp e = Done (Inr resp) e []"
  using assms by (simp add: response_skip)

theorem C1_fromCache_makes_no_call_witness:
  "request ((exResponse (Some exGet))\<lparr> fromCache := True \<rparr>) = Some exGet
   \<and> fromCache ((exResponse (Some exGet))\<lparr> fromCache := True \<rparr>)
   \<and> cacheResponseInterceptor exExtend exNumber exGlobal Readable ((exResponse (Some exGet))\<lparr> fromCache := True \<rparr>)
         (pendingSet ''/a'' exEnv)
       = Done (Inr ((exResponse (Some exGet))\<lparr> fromCache := True \<rparr>)) (pendingSet ''/a'' exEnv) []"
  using C1_fromCache_makes_no_call
          [of "(exResponse (Some exGet))\<lparr> fromCache := True \<rparr>" exGet exExtend exNumber exGlobal
              Readable "pendingSet ''/a'' exEnv"]
  by simp

text \<open>
  The claim as stated fails: a response served from the cache reaches the interceptor while
  a request is pending under its key; \<^verbatim>\<open>resolve\<close> is not called and the entry stays.
\<close>

theorem C1_counterexample:
  "fromCache ((exResponse (Some exGet))\<lparr> fromCache := True \<rparr>)
   \<and> PendingResolve (requestIdOf (resolveOptions exExtend exGlobal exGet) exGet)
       \<notin> set (callsOf (cacheResponseInterceptor exExtend exNumber exGlobal Readable
                 ((exResponse (Some exGet))\<lparr> fromCache := True \<rparr>) (pendingSet ''/a'' exEnv)))
   \<and> requestIdOf (resolveOptions exExtend exGlobal exGet) exGet
       \<in> pendingRequestStore (envOf (cacheResponseInterceptor exExtend exNumber exGlobal Readable
                 ((exResponse (Some exGet))\<lparr> fromCache := True \<rparr>) (pendingSet ''/a'' exEnv)))"
  by (simp add: cacheResponseInterceptor_def Let_def pendingSet_def)

section \<open>C8\<close>

text \<open>
  C8 (as amended). A response without its request makes the response interceptor throw
  \<^verbatim>\<open>Error('Missing request in response')\<close> before any call, the shared state untouched. A
  response that carries its request and whose body is readable never makes it throw, and the
  value returned is the response itself. With the request attached and any state of the body,
  the interceptor either returns the response itself or throws the \<^verbatim>\<open>TypeError\<close> of
  \<^verbatim>\<open>Response.clone()\<close> or \<^verbatim>\<open>blob()\<close>; it throws only when the body is not readable, and then
  it has called neither \<^verbatim>\<open>ajaxCache.set\<close> nor \<^verbatim>\<open>pendingRequestStore.resolve\<close>. (The resolution
  of the options and \<^verbatim>\<open>requestIdFunction\<close> are functions, as in the data model.)
\<close>

theorem C8_missing_request_throws:
  "(request resp = None \<longrightarrow>
      cacheResponseInterceptor X N G bs resp e
        = Done (Inl (Error ''Missing request in response'')) e [])
   \<and> (request resp \<noteq> None \<longrightarrow>
      fst (run sched (cacheResponseInterceptor X N G Readable resp e)) = Inr resp)
   \<and> (request resp \<noteq> None \<longrightarrow>
      fst (run sched (cacheResponseInterceptor X N G bs resp e)) = Inr resp
      \<or> (fst (run sched (cacheResponseInterceptor X N G bs resp e)) = Inl TypeError
          \<and> bs \<noteq> Readable
          \<and> (\<forall>k c s. CacheSet k c s
                 \<notin> set (snd (snd (run sched (cacheResponseInterceptor X N G bs resp e)))))
          \<and> (\<forall>k. PendingResolve k
                 \<notin> set (snd (snd (run sched (cacheResponseInterceptor X N G bs resp e)))))))"
proof (intro conjI impI)
  assume "request resp = None"
  then show "cacheResponseInterceptor X N G bs resp e
               = Done (Inl (Error ''Missing request in response'')) e []"
    by (simp add: cacheResponseInterceptor_def)
next
  assume "request resp \<noteq> None"
  then obtain req where req: "request resp = Some req" by auto
  show "fst (run sched (cacheResponseInterceptor X N G Readable resp e)) = Inr resp"
  proof (cases "\<not> fromCache resp \<and> isMethodSupported (methods (resolveOptions X G req)) (method req)")
    case True
    then show ?thesis using req by (simp add: run_response run_capture)
  next
    case False
    then show ?thesis
      using req response_skip [where resp = resp and req = req and X = X and G = G] by auto
  qed
next
  assume "request resp \<noteq> None"
  then obtain req where req: "request resp = Some req" by auto
  let ?res = "run sched (cacheResponseInterceptor X N G bs resp e)"
  show "fst ?res = Inr resp
      \<or> (fst ?res = Inl TypeError \<and> bs \<noteq> Readable
          \<and> (\<forall>k c s. CacheSet k c s \<notin> set (snd (snd ?res)))
          \<and> (\<forall>k. PendingResolve k \<notin> set (snd (snd ?res))))"
  proof (cases "\<not> fromCache resp \<and> isMethodSupported (methods (resolveOptions X G req)) (method req)")
    case True
    then show ?thesis
      using req
      by (auto simp add: run_response run_capture dest: sizeCalls_only_Blob split: if_splits)
  next
    case False
    then show ?thesis
      using req response_skip [where resp = resp and req = req and X = X and G = G] by auto
  qed
qed

theorem C8_missing_request_throws_witness:
  "request (exResponse None) = None
   \<and> cacheResponseInterceptor exExtend exNumber exGlobal Readable (exResponse None) exEnv
       = Done (Inl (Error ''Missing request in response'')) exEnv []
   \<and> request (exResponse (Some exGet)) \<noteq> None
   \<and> fst (run exIdle (cacheResponseInterceptor exExtend exNumber exGlobal Readable
          (exResponse (Some exGet)) exEnv))
       = Inr (exResponse (Some exGet))"
  using C8_missing_request_throws
          [where resp = "exResponse None" and X = exExtend and N = exNumber and G = exGlobal
             and bs = Readable and e = exEnv and sched = exIdle]
        C8_missing_request_throws
          [where resp = "exResponse (Some exGet)" and X = exExtend and N = exNumber and G = exGlobal
             and bs = Readable and e = exEnv and sched = exIdle]
  by simp

text \<open>
  The claim as stated fails: a response that carries its request, eligible for the cache, whose
  body was already used. \<^verbatim>\<open>response.clone()\<close> of line 153 throws, and the interceptor with it.
\<close>

theorem C8_counterexample:
  "request (exResponse (Some (attach (resolveOptions exExtend exGlobal exGet) ''s1'' exGet)))
     = Some (attach (resolveOptions exExtend exGlobal exGet) ''s1'' exGet)
   \<and> cacheResponseInterceptor exExtend exNumber exGlobal Unusable
         (exResponse (Some (attach (resolveOptions exExtend exGlobal exGet) ''s1'' exGet)))
         (resetCacheSession ''s1'' exEnv)
       = Done (Inl TypeError) (resetCacheSession ''s1'' exEnv) [IsCurrentSessionId (Some ''s1'')]"
proof -
  have sup: "isMethodSupported [''get''] ''GET''" by (rule ex_get_supported)
  show ?thesis
    by (simp add: cacheResponseInterceptor_def Let_def sup truthy_def capture_def
          isCurrentSessionId_def ex_json_supported isResponseSizeSupported_def)
qed

section \<open>C6\<close>

text \<open>
  C6. When caching is on for a request and its method is not one of the cacheable methods,
  the request interceptor calls \<^verbatim>\<open>invalidateMatchingCache\<close> for the request identifier and
  returns the request (the same request, with the resolved options and the session
  identifier attached). Its only calls are \<^verbatim>\<open>resetCacheSession\<close> and that invalidation: the
  pending requests are as they were and no entry is left under the request identifier.
\<close>

theorem C6_unsupported_method_invalidates:
  assumes "V (cacheOptions r) = None"
    and "useCache (resolveOptions X G r)"
    and "\<not> isMethodSupported (methods (resolveOptions X G r)) (method r)"
  shows "run sched (cacheRequestInterceptor V X g G r e) =
           (Inr (Request (attach (resolveOptions X G r) (sessionIdOf g) r)),
            invalidateMatchingCache (requestIdOf (resolveOptions X G r) r)
              (resetCacheSession (sessionIdOf g) (admitEnv sched g e)),
            [ResetCacheSession (sessionIdOf g),
             InvalidateMatchingCache (requestIdOf (resolveOptions X G r) r)])
         \<and> pendingRequestStore (fst (snd (run sched (cacheRequestInterceptor V X g G r e))))
             = pendingRequestStore (admitEnv sched g e)
         \<and> map_of (ajaxCache (fst (snd (run sched (cacheRequestInterceptor V X g G r e)))))
               (requestIdOf (resolveOptions X G r) r) = None"
proof -
  have run_eq: "run sched (cacheRequestInterceptor V X g G r e) =
           (Inr (Request (attach (resolveOptions X G r) (sessionIdOf g) r)),
            invalidateMatchingCache (requestIdOf (resolveOptions X G r) r)
              (resetCacheSession (sessionIdOf g) (admitEnv sched g e)),
            [ResetCacheSession (sessionIdOf g),
             InvalidateMatchingCache (requestIdOf (resolveOptions X G r) r)])"
    using assms by (simp add: run_request admit_unsupported)
  have gone: "map_of (deleteKey k c) k = None" for k and c :: "(requestId \<times> cacheEntry) list"
    by (induction c) (simp_all add: deleteKey_def)
  show ?thesis
    unfolding run_eq by (simp add: invalidateMatchingCache_def gone)
qed

theorem C6_unsupported_method_invalidates_witness:
  "exValidate (cacheOptions exPost) = None
   \<and> useCache (resolveOptions exExtend exGlobal exPost)
   \<and> \<not> isMethodSupported (methods (resolveOptions exExtend exGlobal exPost)) (method exPost)
   \<and> run exIdle (cacheRequestInterceptor exValidate exExtend (Direct ''s1'') exGlobal exPost
          (cacheSet ''/a'' (exResponse None) 5 exEnv)) =
         (Inr (Request (attach (resolveOptions exExtend exGlobal exPost) ''s1'' exPost)),
          invalidateMatchingCache ''/a'' (resetCacheSession ''s1'' (cacheSet ''/a'' (exResponse None) 5 exEnv)),
          [ResetCacheSession ''s1'', InvalidateMatchingCache ''/a''])
   \<and> map_of (ajaxCache (cacheSet ''/a'' (exResponse None) 5 exEnv)) ''/a'' \<noteq> None"
  using C6_unsupported_method_invalidates
          [of exValidate exPost exExtend exGlobal exIdle "Direct ''s1''"
              "cacheSet ''/a'' (exResponse None) 5 exEnv"]
        ex_post_unsupported
  by (simp add: exValidate_def sessionIdOf_def admitEnv_def cacheSet_def)

section \<open>C2\<close>

text \<open>
  C2 (as amended). For a request whose resolved options have \<^verbatim>\<open>useCache\<close> false, the request
  interceptor only resets the session and returns the request: it makes no call to the cache
  or to the pending requests and leaves both as they were. The response interceptor, for
  any response and any state of its body, never calls \<^verbatim>\<open>pendingRequestStore.set\<close>: the
  pending requests it leaves are among those it found.
\<close>

theorem C2_useCache_false_creates_no_pending:
  assumes "V (cacheOptions r) = None"
    and "\<not> useCache (resolveOptions X G r)"
    and "request resp = Some (attach (resolveOptions X G r) (sessionIdOf g) r)"
  shows "run sched (cacheRequestInterceptor V X g G r e) =
           (Inr (Request (attach (resolveOptions X G r) (sessionIdOf g) r)),
            resetCacheSession (sessionIdOf g) (admitEnv sched g e),
            [ResetCacheSession (sessionIdOf g)])
         \<and> ajaxCache (fst (snd (run sched (cacheRequestInterceptor V X g G r e))))
             = ajaxCache (admitEnv sched g e)
         \<and> pendingRequestStore (fst (snd (run sched (cacheRequestInterceptor V X g G r e))))
             = pendingRequestStore (admitEnv sched g e)
         \<and> (\<forall>k. PendingSet k \<notin> set (snd (snd (run sched (cacheResponseInterceptor X N G bs resp e')))))
         \<and> pendingRequestStore (fst (snd (run sched (cacheResponseInterceptor X N G bs resp e'))))
             \<subseteq> pendingRequestStore e' \<union> pendingRequestStore (sched ResponseSizePromise e')"
proof -
  let ?req = "attach (resolveOptions X G r) (sessionIdOf g) r"
  have run_eq: "run sched (cacheRequestInterceptor V X g G r e) =
           (Inr (Request ?req), resetCacheSession (sessionIdOf g) (admitEnv sched g e),
            [ResetCacheSession (sessionIdOf g)])"
    using assms(1,2) by (simp add: run_request admit_noCache)
  have trunc: "pendingRequestStore (cacheTruncateTo b x) = pendingRequestStore x" for b x
    by (simp add: cacheTruncateTo_def)
  have cset: "pendingRequestStore (cacheSet k c s x) = pendingRequestStore x" for k c s x
    by (simp add: cacheSet_def)
  have resp: "(\<forall>k. PendingSet k \<notin> set (snd (snd (run sched (cacheResponseInterceptor X N G bs resp e')))))
         \<and> pendingRequestStore (fst (snd (run sched (cacheResponseInterceptor X N G bs resp e'))))
             \<subseteq> pendingRequestStore e' \<union> pendingRequestStore (sched ResponseSizePromise e')"
  proof (cases "\<not> fromCache resp \<and> isMethodSupported (methods (resolveOptions X G ?req)) (method ?req)")
    case True
    then show ?thesis
      using assms(3)
      by (auto simp add: run_response run_capture pendingResolve_def trunc cset captureEnv_def
            dest: sizeCalls_only_Blob split: if_splits)
  next
    case False
    then show ?thesis
      using assms(3) response_skip [where resp = resp and req = ?req and X = X and G = G] by auto
  qed
  show ?thesis
    unfolding run_eq using resp by simp
qed

theorem C2_useCache_false_creates_no_pending_witness:
  "exValidate (cacheOptions exGetNoCache) = None
   \<and> \<not> useCache (resolveOptions exExtend exGlobal exGetNoCache)
   \<and> run exIdle (cacheRequestInterceptor exValidate exExtend (Direct ''s1'') exGlobal
          exGetNoCache exEnv) =
         (Inr (Request (attach (resolveOptions exExtend exGlobal exGetNoCache) ''s1'' exGetNoCache)),
          resetCacheSession ''s1'' exEnv, [ResetCacheSession ''s1''])
   \<and> pendingRequestStore (fst (snd (run exIdle (cacheResponseInterceptor exExtend exNumber exGlobal Readable
          (exResponse (Some (attach (resolveOptions exExtend exGlobal exGetNoCache) ''s1'' exGetNoCache)))
          (resetCacheSession ''s1'' exEnv))))) = {}"
  using C2_useCache_false_creates_no_pending
          [where V = exValidate and r = exGetNoCache and X = exExtend and G = exGlobal
             and resp = "exResponse (Some (attach (resolveOptions exExtend exGlobal exGetNoCache) ''s1''
                                       exGetNoCache))"
             and g = "Direct ''s1''" and sched = exIdle and e = exEnv and N = exNumber
             and bs = Readable and e' = "resetCacheSession ''s1'' exEnv"]
  by (simp add: exValidate_def sessionIdOf_def admitEnv_def exIdle_def)

text \<open>
  The claim as stated fails for the response interceptor, which does not read \<^verbatim>\<open>useCache\<close>:
  a \<^verbatim>\<open>GET\<close> request with \<^verbatim>\<open>useCache: false\<close> passes the request interceptor, and its
  response is stored under the request identifier.
\<close>

theorem C2_counterexample:
  "\<not> useCache (resolveOptions exExtend exGlobal exGetNoCache)
   \<and> cacheRequestInterceptor exValidate exExtend (Direct ''s1'') exGlobal exGetNoCache exEnv =
         Done (Inr (Request (attach (resolveOptions exExtend exGlobal exGetNoCache) ''s1'' exGetNoCache)))
           (resetCacheSession ''s1'' exEnv) [ResetCacheSession ''s1'']
   \<and> map_of (ajaxCache (resetCacheSession ''s1'' exEnv)) ''/a'' = None
   \<and> callsOf (cacheResponseInterceptor exExtend exNumber exGlobal Readable
          (exResponse (Some (attach (resolveOptions exExtend exGlobal exGetNoCache) ''s1'' exGetNoCache)))
          (resetCacheSession ''s1'' exEnv))
       = [IsCurrentSessionId (Some ''s1''), CacheSet ''/a'' (exResponse None) 0, PendingResolve ''/a'']
   \<and> map_of (ajaxCache (envOf (cacheResponseInterceptor exExtend exNumber exGlobal Readable
          (exResponse (Some (attach (resolveOptions exExtend exGlobal exGetNoCache) ''s1'' exGetNoCache)))
          (resetCacheSession ''s1'' exEnv)))) ''/a''
       = Some \<lparr> entryResponse = exResponse None, entrySize = 0, createdAt = 7 \<rparr>"
proof -
  have sup: "isMethodSupported [''get''] ''GET''" by (rule ex_get_supported)
  have cl: "clone (exResponse r) = exResponse None" for r
    by (simp add: clone_def exResponse_def)
  show ?thesis
    by (simp add: cacheRequestInterceptor_def exValidate_def admit_noCache
          cacheResponseInterceptor_def Let_def sup truthy_def capture_def isCurrentSessionId_def
          ex_json_supported isResponseSizeSupported_def cl cacheSet_def deleteKey_def
          pendingResolve_def)
qed

section \<open>C4\<close>

text \<open>
  C4. When the request interceptor finds a request pending under its request identifier, it
  is suspended on that pending request for as long as it is unresolved. When it wakes and
  the session identifier it captured is no longer the current one, it returns the request
  (with the options and the session identifier attached) and leaves the shared state as it
  found it on waking; its calls are \<^verbatim>\<open>resetCacheSession\<close>, \<^verbatim>\<open>pendingRequestStore.get\<close> and
  \<^verbatim>\<open>isCurrentSessionId\<close>, so the cache is not read.
\<close>

theorem C4_stale_session_after_wait:
  assumes "V (cacheOptions r) = None"
    and "useCache (resolveOptions X G r)"
    and "isMethodSupported (methods (resolveOptions X G r)) (method r)"
    and "requestIdOf (resolveOptions X G r) r \<in> pendingRequestStore (admitEnv sched g e)"
  shows "waitingOn (advance (whileUnresolved (requestIdOf (resolveOptions X G r) r) sched)
                      (cacheRequestInterceptor V X g G r e))
           = Some (PendingRequest (requestIdOf (resolveOptions X G r) r))
         \<and> (\<not> isCurrentSessionId
                 (sched (PendingRequest (requestIdOf (resolveOptions X G r) r))
                    (resetCacheSession (sessionIdOf g) (admitEnv sched g e)))
                 (Some (sessionIdOf g)) \<longrightarrow>
              run sched (cacheRequestInterceptor V X g G r e) =
                (Inr (Request (attach (resolveOptions X G r) (sessionIdOf g) r)),
                 sched (PendingRequest (requestIdOf (resolveOptions X G r) r))
                    (resetCacheSession (sessionIdOf g) (admitEnv sched g e)),
                 [ResetCacheSession (sessionIdOf g),
                  PendingGet (requestIdOf (resolveOptions X G r) r),
                  IsCurrentSessionId (Some (sessionIdOf g))])
              \<and> (\<forall>k a m. CacheGet k a m
                     \<notin> set (snd (snd (run sched (cacheRequestInterceptor V X g G r e))))))"
proof (intro conjI impI)
  obtain k where
    "advance (whileUnresolved (requestIdOf (resolveOptions X G r) r) sched)
       (admit X G (sessionIdOf g) r (admitEnv sched g e)) =
     Await (PendingRequest (requestIdOf (resolveOptions X G r) r))
       (resetCacheSession (sessionIdOf g) (admitEnv sched g e))
       [ResetCacheSession (sessionIdOf g), PendingGet (requestIdOf (resolveOptions X G r) r)] k"
    using advance_admit_pending [OF assms(2,3,4)] by blast
  then show "waitingOn (advance (whileUnresolved (requestIdOf (resolveOptions X G r) r) sched)
                      (cacheRequestInterceptor V X g G r e))
           = Some (PendingRequest (requestIdOf (resolveOptions X G r) r))"
    using assms(1) by (simp add: advance_request)
next
  assume stale: "\<not> isCurrentSessionId
                 (sched (PendingRequest (requestIdOf (resolveOptions X G r) r))
                    (resetCacheSession (sessionIdOf g) (admitEnv sched g e)))
                 (Some (sessionIdOf g))"
  show run_eq: "run sched (cacheRequestInterceptor V X g G r e) =
                (Inr (Request (attach (resolveOptions X G r) (sessionIdOf g) r)),
                 sched (PendingRequest (requestIdOf (resolveOptions X G r) r))
                    (resetCacheSession (sessionIdOf g) (admitEnv sched g e)),
                 [ResetCacheSession (sessionIdOf g),
                  PendingGet (requestIdOf (resolveOptions X G r) r),
                  IsCurrentSessionId (Some (sessionIdOf g))])"
    using assms stale by (simp add: run_request run_admit_stale)
  show "\<forall>k a m. CacheGet k a m \<notin> set (snd (snd (run sched (cacheRequestInterceptor V X g G r e))))"
    unfolding run_eq by simp
qed

theorem C4_stale_session_after_wait_witness:
  "exValidate (cacheOptions exGet) = None
   \<and> useCache (resolveOptions exExtend exGlobal exGet)
   \<and> isMethodSupported (methods (resolveOptions exExtend exGlobal exGet)) (method exGet)
   \<and> ''/a'' \<in> pendingRequestStore (pendingSet ''/a'' exEnv)
   \<and> \<not> isCurrentSessionId
         (exSwitch (PendingRequest ''/a'') (resetCacheSession ''s1'' (pendingSet ''/a'' exEnv)))
         (Some ''s1'')
   \<and> waitingOn (advance (whileUnresolved ''/a'' exSwitch)
         (cacheRequestInterceptor exValidate exExtend (Direct ''s1'') exGlobal exGet
            (pendingSet ''/a'' exEnv)))
       = Some (PendingRequest ''/a'')
   \<and> run exSwitch (cacheRequestInterceptor exValidate exExtend (Direct ''s1'') exGlobal exGet
          (pendingSet ''/a'' exEnv)) =
         (Inr (Request (attach (resolveOptions exExtend exGlobal exGet) ''s1'' exGet)),
          resetCacheSession ''s2'' (resetCacheSession ''s1'' (pendingSet ''/a'' exEnv)),
          [ResetCacheSession ''s1'', PendingGet ''/a'', IsCurrentSessionId (Some ''s1'')])"
  using C4_stale_session_after_wait
          [of exValidate exGet exExtend exGlobal exSwitch "Direct ''s1''" "pendingSet ''/a'' exEnv"]
        ex_get_supported
  by (simp add: exValidate_def sessionIdOf_def admitEnv_def pendingSet_def exSwitch_def
        isCurrentSessionId_def)

section \<open>C5\<close>

text \<open>
  C5. When caching is on for a request, its method is cacheable, and the cache read of the
  request interceptor (made at once, or after the wait for a pending request when the session
  is still current) returns a response whose content type passes the whitelist, the
  interceptor returns a clone of that response with the request attached and \<^verbatim>\<open>fromCache\<close>
  set. It leaves the shared state as it was at the read and never calls
  \<^verbatim>\<open>pendingRequestStore.set\<close>; what it returns is a response, so nothing goes to the network.
\<close>

theorem C5_cache_hit_is_served:
  assumes "V (cacheOptions r) = None"
    and "useCache (resolveOptions X G r)"
    and "isMethodSupported (methods (resolveOptions X G r)) (method r)"
    and "requestIdOf (resolveOptions X G r) r \<in> pendingRequestStore (admitEnv sched g e) \<longrightarrow>
           isCurrentSessionId
             (lookupEnv sched (requestIdOf (resolveOptions X G r) r)
                (resetCacheSession (sessionIdOf g) (admitEnv sched g e)))
             (Some (sessionIdOf g))"
    and "cacheGet (lookupEnv sched (requestIdOf (resolveOptions X G r) r)
                     (resetCacheSession (sessionIdOf g) (admitEnv sched g e)))
           (requestIdOf (resolveOptions X G r) r)
           (maxAge (resolveOptions X G r)) (maxResponseSize (resolveOptions X G r)) = Some cr"
    and "isResponseContentTypeSupported cr (contentTypes (resolveOptions X G r))"
  shows "fst (run sched (cacheRequestInterceptor V X g G r e)) =
           Inr (Response ((clone cr)\<lparr> request := Some (attach (resolveOptions X G r) (sessionIdOf g) r),
                                     fromCache := True \<rparr>))
         \<and> fst (snd (run sched (cacheRequestInterceptor V X g G r e))) =
             lookupEnv sched (requestIdOf (resolveOptions X G r) r)
               (resetCacheSession (sessionIdOf g) (admitEnv sched g e))
         \<and> (\<forall>k. PendingSet k \<notin> set (snd (snd (run sched (cacheRequestInterceptor V X g G r e)))))"
  using assms
  by (simp add: run_request run_admit_lookup serveOrLead_hit)

theorem C5_cache_hit_is_served_witness:
  "exValidate (cacheOptions exGet) = None
   \<and> useCache (resolveOptions exExtend exGlobal exGet)
   \<and> isMethodSupported (methods (resolveOptions exExtend exGlobal exGet)) (method exGet)
   \<and> cacheGet (resetCacheSession ''s1'' (cacheSet ''/a'' (exResponse None) 5 exEnv)) ''/a'' None None
       = Some (exResponse None)
   \<and> isResponseContentTypeSupported (exResponse None) None
   \<and> fst (run exIdle (cacheRequestInterceptor exValidate exExtend (Direct ''s1'') exGlobal exGet
          (cacheSet ''/a'' (exResponse None) 5 exEnv))) =
         Inr (Response ((exResponse None)
                \<lparr> request := Some (attach (resolveOptions exExtend exGlobal exGet) ''s1'' exGet),
                  fromCache := True \<rparr>))"
proof -
  have hit: "cacheGet (resetCacheSession ''s1'' (cacheSet ''/a'' (exResponse None) 5 exEnv)) ''/a'' None None
       = Some (exResponse None)"
    by (simp add: cacheGet_def cacheSet_def deleteKey_def)
  have cl: "clone (exResponse None) = exResponse None"
    by (simp add: clone_def exResponse_def)
  show ?thesis
    using C5_cache_hit_is_served
            [of exValidate exGet exExtend exGlobal exIdle "Direct ''s1''"
                "cacheSet ''/a'' (exResponse None) 5 exEnv" "exResponse None"]
          hit ex_get_supported ex_json_supported [of None]
    by (simp add: exValidate_def sessionIdOf_def admitEnv_def lookupEnv_def pendingGet_def
          cacheSet_def cl)
qed

section \<open>C9\<close>

text \<open>
  C9. Two requests with the same request identifier, caching on and a cacheable method: the
  first finds no pending request and no usable cache entry, the second is admitted while the
  first is unresolved (the identifier is still pending). While the pending request is
  unresolved, the first interceptor has marked the identifier as pending and returned its
  request, which goes to the network; the second is suspended on the pending request, having
  called neither the cache nor \<^verbatim>\<open>pendingRequestStore.set\<close>, and has returned nothing. Exactly
  one of the two has been dispatched.
\<close>

theorem C9_one_network_call_while_unresolved:
  assumes "V (cacheOptions r1) = None" and "V (cacheOptions r2) = None"
    and "useCache (resolveOptions X G r1)" and "useCache (resolveOptions X G r2)"
    and "isMethodSupported (methods (resolveOptions X G r1)) (method r1)"
    and "isMethodSupported (methods (resolveOptions X G r2)) (method r2)"
    and "requestIdOf (resolveOptions X G r1) r1 = rid"
    and "requestIdOf (resolveOptions X G r2) r2 = rid"
    and "rid \<notin> pendingRequestStore (admitEnv sched g1 e)"
    and "\<forall>cr. cacheGet (resetCacheSession (sessionIdOf g1) (admitEnv sched g1 e)) rid
                 (maxAge (resolveOptions X G r1)) (maxResponseSize (resolveOptions X G r1)) = Some cr
               \<longrightarrow> \<not> isResponseContentTypeSupported cr (contentTypes (resolveOptions X G r1))"
    and "rid \<in> pendingRequestStore (admitEnv sched g2 e')"
  shows "advance (whileUnresolved rid sched) (cacheRequestInterceptor V X g1 G r1 e) =
           Done (Inr (Request (attach (resolveOptions X G r1) (sessionIdOf g1) r1)))
             (pendingSet rid (resetCacheSession (sessionIdOf g1) (admitEnv sched g1 e)))
             [ResetCacheSession (sessionIdOf g1), PendingGet rid,
              CacheGet rid (maxAge (resolveOptions X G r1)) (maxResponseSize (resolveOptions X G r1)),
              PendingSet rid]
         \<and> rid \<in> pendingRequestStore
               (envOf (advance (whileUnresolved rid sched) (cacheRequestInterceptor V X g1 G r1 e)))
         \<and> waitingOn (advance (whileUnresolved rid sched) (cacheRequestInterceptor V X g2 G r2 e'))
             = Some (PendingRequest rid)
         \<and> callsOf (advance (whileUnresolved rid sched) (cacheRequestInterceptor V X g2 G r2 e'))
             = [ResetCacheSession (sessionIdOf g2), PendingGet rid]
         \<and> length (filter dispatched
               [advance (whileUnresolved rid sched) (cacheRequestInterceptor V X g1 G r1 e),
                advance (whileUnresolved rid sched) (cacheRequestInterceptor V X g2 G r2 e')]) = 1"
proof -
  let ?t1 = "advance (whileUnresolved rid sched) (cacheRequestInterceptor V X g1 G r1 e)"
  let ?t2 = "advance (whileUnresolved rid sched) (cacheRequestInterceptor V X g2 G r2 e')"
  have first: "?t1 =
           Done (Inr (Request (attach (resolveOptions X G r1) (sessionIdOf g1) r1)))
             (pendingSet rid (resetCacheSession (sessionIdOf g1) (admitEnv sched g1 e)))
             [ResetCacheSession (sessionIdOf g1), PendingGet rid,
              CacheGet rid (maxAge (resolveOptions X G r1)) (maxResponseSize (resolveOptions X G r1)),
              PendingSet rid]"
    using assms(1,3,5,7,9,10)
    by (simp add: advance_request admit_not_pending serveOrLead_no_hit)
  obtain k where second: "?t2 =
     Await (PendingRequest rid) (resetCacheSession (sessionIdOf g2) (admitEnv sched g2 e'))
       [ResetCacheSession (sessionIdOf g2), PendingGet rid] k"
    using advance_admit_pending [of X G r2 "admitEnv sched g2 e'" sched "sessionIdOf g2"]
          assms(2,4,6,8,11)
    by (auto simp add: advance_request)
  show ?thesis
    unfolding first second by (simp add: dispatched_def pendingSet_def)
qed

theorem C9_one_network_call_while_unresolved_witness:
  "exValidate (cacheOptions exGet) = None
   \<and> useCache (resolveOptions exExtend exGlobal exGet)
   \<and> isMethodSupported (methods (resolveOptions exExtend exGlobal exGet)) (method exGet)
   \<and> requestIdOf (resolveOptions exExtend exGlobal exGet) exGet = ''/a''
   \<and> ''/a'' \<notin> pendingRequestStore exEnv
   \<and> cacheGet (resetCacheSession ''s1'' exEnv) ''/a'' None None = None
   \<and> ''/a'' \<in> pendingRequestStore (pendingSet ''/a'' (resetCacheSession ''s1'' exEnv))
   \<and> advance (whileUnresolved ''/a'' exIdle)
         (cacheRequestInterceptor exValidate exExtend (Direct ''s1'') exGlobal exGet exEnv) =
       Done (Inr (Request (attach (resolveOptions exExtend exGlobal exGet) ''s1'' exGet)))
         (pendingSet ''/a'' (resetCacheSession ''s1'' exEnv))
         [ResetCacheSession ''s1'', PendingGet ''/a'', CacheGet ''/a'' None None, PendingSet ''/a'']
   \<and> waitingOn (advance (whileUnresolved ''/a'' exIdle)
         (cacheRequestInterceptor exValidate exExtend (Direct ''s1'') exGlobal exGet
            (pendingSet ''/a'' (resetCacheSession ''s1'' exEnv))))
       = Some (PendingRequest ''/a'')"
proof -
  have miss: "cacheGet (resetCacheSession ''s1'' exEnv) ''/a'' None None = None"
    by (simp add: cacheGet_def)
  show ?thesis
    using C9_one_network_call_while_unresolved
            [of exValidate exGet exGet exExtend exGlobal "''/a''" exIdle "Direct ''s1''" exEnv
                "Direct ''s1''" "pendingSet ''/a'' (resetCacheSession ''s1'' exEnv)"]
          miss ex_get_supported
    by (simp add: exValidate_def sessionIdOf_def admitEnv_def pendingSet_def)
qed

section \<open>C3\<close>




section \<open>C7\<close>

text \<open>
  C7. For a response that is not from the cache and whose request has a cacheable method:
  when neither \<^verbatim>\<open>maxCacheSize\<close> nor \<^verbatim>\<open>maxResponseSize\<close> is truthy, the response interceptor
  does not wait for a size, never materialises the body, and any entry it stores has size 0.
  When one of them is truthy, it waits for \<^verbatim>\<open>getResponseSize\<close>. Then, with a Content-Length
  header whose text reads as a number that is not zero, that number is the size of the entry
  stored and the body is not materialised, whatever the state of the body. With the header
  absent, or with a header whose text reads as zero or as \<^verbatim>\<open>NaN\<close>, and a readable body, the body
  is materialised and its length is the size of the entry stored.
\<close>

theorem C7_size_measured_only_when_configured:
  fixes X N G bs resp req sched e
  defines "opts \<equiv> resolveOptions X G req"
  defines "t \<equiv> cacheResponseInterceptor X N G bs resp e"
  assumes "request resp = Some req" and "\<not> fromCache resp"
    and "isMethodSupported (methods opts) (method req)"
  shows "(\<not> (truthy (maxCacheSize opts) \<or> truthy (maxResponseSize opts)) \<longrightarrow>
            waitingOn t = None \<and> Blob \<notin> set (snd (snd (run sched t)))
            \<and> (\<forall>k c s. CacheSet k c s \<in> set (snd (snd (run sched t))) \<longrightarrow> s = 0))
     \<and> (truthy (maxCacheSize opts) \<or> truthy (maxResponseSize opts) \<longrightarrow>
            waitingOn t = Some ResponseSizePromise
            \<and> (\<forall>h n. contentLength resp = Some h \<and> N h = Some n \<and> n \<noteq> 0 \<longrightarrow>
                  Blob \<notin> set (snd (snd (run sched t)))
                  \<and> (\<forall>k c s. CacheSet k c s \<in> set (snd (snd (run sched t))) \<longrightarrow> s = n))
            \<and> (contentLength resp = None \<and> bs = Readable \<longrightarrow>
                  Blob \<in> set (snd (snd (run sched t)))
                  \<and> (\<forall>k c s. CacheSet k c s \<in> set (snd (snd (run sched t)))
                         \<longrightarrow> s = length (body resp)))
            \<and> (\<forall>h. contentLength resp = Some h \<and> (N h = None \<or> N h = Some 0) \<and> bs = Readable \<longrightarrow>
                  Blob \<in> set (snd (snd (run sched t)))
                  \<and> (\<forall>k c s. CacheSet k c s \<in> set (snd (snd (run sched t)))
                         \<longrightarrow> s = length (body resp))))"
proof -
  have run_eq: "run sched t =
     (if sizeConfigured opts \<and> \<not> truthy (headerSize N resp) \<and> bs \<noteq> Readable
      then (Inl TypeError, captureEnv sched opts e, getResponseSizeCalls N bs resp)
      else run sched (capture opts bs resp req (requestIdOf opts req) (responseSizeOf N opts resp)
             (if sizeConfigured opts then getResponseSizeCalls N bs resp else [])
             (captureEnv sched opts e)))"
    using assms(3,4,5) unfolding t_def opts_def by (rule run_response)
  have wait_eq: "waitingOn t = (if sizeConfigured opts then Some ResponseSizePromise else None)"
    using assms(3,4,5) unfolding t_def opts_def by (rule waitingOn_response)
  have off: "\<not> sizeConfigured opts \<longrightarrow>
            waitingOn t = None \<and> Blob \<notin> set (snd (snd (run sched t)))
            \<and> (\<forall>k c s. CacheSet k c s \<in> set (snd (snd (run sched t))) \<longrightarrow> s = 0)"
    unfolding run_eq run_capture wait_eq by (auto simp add: responseSizeOf_def)
  have header: "Blob \<notin> set (snd (snd (run sched t)))
                  \<and> (\<forall>k c s. CacheSet k c s \<in> set (snd (snd (run sched t))) \<longrightarrow> s = n)"
    if "sizeConfigured opts" and "contentLength resp = Some h" and "N h = Some n" and "n \<noteq> 0"
    for h n
  proof -
    have tr: "truthy (headerSize N resp)" and v: "valueOf (headerSize N resp) = n"
      using that by (simp_all add: headerSize_def truthy_def valueOf_def)
    show ?thesis
      unfolding run_eq run_capture using that(1) tr v
      by (auto simp add: responseSizeOf_def measuredSize_def getResponseSizeCalls_def)
  qed
  have fallback: "Blob \<in> set (snd (snd (run sched t)))
                  \<and> (\<forall>k c s. CacheSet k c s \<in> set (snd (snd (run sched t)))
                         \<longrightarrow> s = length (body resp))"
    if "sizeConfigured opts" and "\<not> truthy (headerSize N resp)" and "bs = Readable"
  proof -
    show ?thesis
      unfolding run_eq run_capture using that
      by (auto simp add: responseSizeOf_def measuredSize_def getResponseSizeCalls_def)
  qed
  have absent: "contentLength resp = None \<Longrightarrow> \<not> truthy (headerSize N resp)"
    by (simp add: headerSize_def truthy_def)
  have falsy: "contentLength resp = Some h \<Longrightarrow> N h = None \<or> N h = Some 0
                 \<Longrightarrow> \<not> truthy (headerSize N resp)" for h
    by (auto simp add: headerSize_def truthy_def)
  have on: "sizeConfigured opts \<longrightarrow>
            waitingOn t = Some ResponseSizePromise
            \<and> (\<forall>h n. contentLength resp = Some h \<and> N h = Some n \<and> n \<noteq> 0 \<longrightarrow>
                  Blob \<notin> set (snd (snd (run sched t)))
                  \<and> (\<forall>k c s. CacheSet k c s \<in> set (snd (snd (run sched t))) \<longrightarrow> s = n))
            \<and> (contentLength resp = None \<and> bs = Readable \<longrightarrow>
                  Blob \<in> set (snd (snd (run sched t)))
                  \<and> (\<forall>k c s. CacheSet k c s \<in> set (snd (snd (run sched t)))
                         \<longrightarrow> s = length (body resp)))
            \<and> (\<forall>h. contentLength resp = Some h \<and> (N h = None \<or> N h = Some 0) \<and> bs = Readable \<longrightarrow>
                  Blob \<in> set (snd (snd (run sched t)))
                  \<and> (\<forall>k c s. CacheSet k c s \<in> set (snd (snd (run sched t)))
                         \<longrightarrow> s = length (body resp)))"
  proof
    assume sc: "sizeConfigured opts"
    have W: "waitingOn t = Some ResponseSizePromise"
      using wait_eq sc by simp
    have H: "(\<forall>h n. contentLength resp = Some h \<and> N h = Some n \<and> n \<noteq> 0 \<longrightarrow>
                  Blob \<notin> set (snd (snd (run sched t)))
                  \<and> (\<forall>k c s. CacheSet k c s \<in> set (snd (snd (run sched t))) \<longrightarrow> s = n))"
      using header [OF sc] by blast
    have A: "(contentLength resp = None \<and> bs = Readable \<longrightarrow>
                  Blob \<in> set (snd (snd (run sched t)))
                  \<and> (\<forall>k c s. CacheSet k c s \<in> set (snd (snd (run sched t)))
                         \<longrightarrow> s = length (body resp)))"
      using fallback [OF sc] absent by blast
    have F: "(\<forall>h. contentLength resp = Some h \<and> (N h = None \<or> N h = Some 0) \<and> bs = Readable \<longrightarrow>
                  Blob \<in> set (snd (snd (run sched t)))
                  \<and> (\<forall>k c s. CacheSet k c s \<in> set (snd (snd (run sched t)))
                         \<longrightarrow> s = length (body resp)))"
      using fallback [OF sc] falsy by blast
    show "waitingOn t = Some ResponseSizePromise
            \<and> (\<forall>h n. contentLength resp = Some h \<and> N h = Some n \<and> n \<noteq> 0 \<longrightarrow>
                  Blob \<notin> set (snd (snd (run sched t)))
                  \<and> (\<forall>k c s. CacheSet k c s \<in> set (snd (snd (run sched t))) \<longrightarrow> s = n))
            \<and> (contentLength resp = None \<and> bs = Readable \<longrightarrow>
                  Blob \<in> set (snd (snd (run sched t)))
                  \<and> (\<forall>k c s. CacheSet k c s \<in> set (snd (snd (run sched t)))
                         \<longrightarrow> s = length (body resp)))
            \<and> (\<forall>h. contentLength resp = Some h \<and> (N h = None \<or> N h = Some 0) \<and> bs = Readable \<longrightarrow>
                  Blob \<in> set (snd (snd (run sched t)))
                  \<and> (\<forall>k c s. CacheSet k c s \<in> set (snd (snd (run sched t)))
                         \<longrightarrow> s = length (body resp)))"
      by (intro conjI W H A F)
  qed
  show ?thesis
    using off on unfolding sizeConfigured_def by (rule conjI)
qed

theorem C7_size_measured_only_when_configured_witness:
  "request ((exResponse (Some (attach (resolveOptions exExtend exGlobalSized exGet) ''s1'' exGet)))\<lparr> contentLength := Some ''12'' \<rparr>) = Some (attach (resolveOptions exExtend exGlobalSized exGet) ''s1'' exGet)
   \<and> isMethodSupported [''get''] ''GET''
   \<and> truthy (maxCacheSize (resolveOptions exExtend exGlobalSized exGet))
   \<and> exNumber ''12'' = Some 12
   \<and> length (body ((exResponse (Some (attach (resolveOptions exExtend exGlobalSized exGet) ''s1'' exGet)))\<lparr> contentLength := Some ''12'' \<rparr>)) = 5
   \<and> Blob \<notin> set (snd (snd (run exIdle (cacheResponseInterceptor exExtend exNumber exGlobalSized
         Readable ((exResponse (Some (attach (resolveOptions exExtend exGlobalSized exGet) ''s1'' exGet)))\<lparr> contentLength := Some ''12'' \<rparr>)
         (resetCacheSession ''s1'' exEnv)))))
   \<and> CacheSet ''/a'' ((exResponse None)\<lparr> contentLength := Some ''12'' \<rparr>) 12
       \<in> set (snd (snd (run exIdle (cacheResponseInterceptor exExtend exNumber exGlobalSized
         Readable ((exResponse (Some (attach (resolveOptions exExtend exGlobalSized exGet) ''s1'' exGet)))\<lparr> contentLength := Some ''12'' \<rparr>)
         (resetCacheSession ''s1'' exEnv)))))
   \<and> contentLength (exResponse (Some (attach (resolveOptions exExtend exGlobalSized exGet) ''s1'' exGet))) = None
   \<and> Blob \<in> set (snd (snd (run exIdle (cacheResponseInterceptor exExtend exNumber exGlobalSized
         Readable (exResponse (Some (attach (resolveOptions exExtend exGlobalSized exGet) ''s1'' exGet))) (resetCacheSession ''s1'' exEnv)))))
   \<and> CacheSet ''/a'' (exResponse None) 5
       \<in> set (snd (snd (run exIdle (cacheResponseInterceptor exExtend exNumber exGlobalSized
         Readable (exResponse (Some (attach (resolveOptions exExtend exGlobalSized exGet) ''s1'' exGet))) (resetCacheSession ''s1'' exEnv)))))"
proof -
  let ?req = "(attach (resolveOptions exExtend exGlobalSized exGet) ''s1'' exGet)"
  let ?opts = "resolveOptions exExtend exGlobalSized ?req"
  let ?r12 = "(exResponse (Some ?req))\<lparr> contentLength := Some ''12'' \<rparr>"
  let ?r0 = "exResponse (Some ?req)"
  let ?e = "resetCacheSession ''s1'' exEnv"
  let ?t12 = "cacheResponseInterceptor exExtend exNumber exGlobalSized Readable ?r12 ?e"
  let ?t0 = "cacheResponseInterceptor exExtend exNumber exGlobalSized Readable ?r0 ?e"
  have sup: "isMethodSupported [''get''] ''GET''" by (rule ex_get_supported)
  have m: "isMethodSupported (methods ?opts) (method ?req)" using sup by simp
  have cfg: "truthy (maxCacheSize ?opts) \<or> truthy (maxResponseSize ?opts)"
    by (simp add: truthy_def)
  have r12: "request ?r12 = Some ?req" "\<not> fromCache ?r12" "contentLength ?r12 = Some ''12''"
    "length (body ?r12) = 5"
    by (simp_all add: exResponse_def)
  have r0: "request ?r0 = Some ?req" "\<not> fromCache ?r0" "contentLength ?r0 = None"
    by simp_all
  have stored12: "CacheSet ''/a'' ((exResponse None)\<lparr> contentLength := Some ''12'' \<rparr>) 12
       \<in> set (snd (snd (run exIdle ?t12)))"
    by (simp add: cacheResponseInterceptor_def Let_def sup truthy_def capture_def exIdle_def
          isResponseSizeSupported_def getResponseSize_cases getResponseSizeCalls_def
          headerSize_def valueOf_def exResponse_def clone_def isCurrentSessionId_def
          isResponseContentTypeSupported_def)
  have stored0: "CacheSet ''/a'' (exResponse None) 5 \<in> set (snd (snd (run exIdle ?t0)))"
    by (simp add: cacheResponseInterceptor_def Let_def sup truthy_def capture_def exIdle_def
          ex_json_supported isResponseSizeSupported_def getResponseSize_cases
          getResponseSizeCalls_def headerSize_def valueOf_def)
  have used: "Blob \<notin> set (snd (snd (run exIdle ?t12)))"
  proof -
    note th = C7_size_measured_only_when_configured
            [where resp = ?r12 and req = ?req and X = exExtend and N = exNumber
               and G = exGlobalSized and bs = Readable and sched = exIdle and e = ?e,
             OF r12(1) r12(2) m]
    note on = th [THEN conjunct2, THEN mp, OF cfg]
    note header = on [THEN conjunct2, THEN conjunct1, rule_format, of "''12''" 12]
    have "contentLength ?r12 = Some ''12'' \<and> exNumber ''12'' = Some 12 \<and> (12::nat) \<noteq> 0"
      using r12(3) ex_number(1) by simp
    from header [OF this] show ?thesis by (rule conjunct1)
  qed
  have fell: "Blob \<in> set (snd (snd (run exIdle ?t0)))"
  proof -
    note th = C7_size_measured_only_when_configured
            [where resp = ?r0 and req = ?req and X = exExtend and N = exNumber
               and G = exGlobalSized and bs = Readable and sched = exIdle and e = ?e,
             OF r0(1) r0(2) m]
    note on = th [THEN conjunct2, THEN mp, OF cfg]
    note absent = on [THEN conjunct2, THEN conjunct2, THEN conjunct1, rule_format]
    have "contentLength ?r0 = None \<and> Readable = Readable"
      using r0(3) by simp
    from absent [OF this] show ?thesis by (rule conjunct1)
  qed
  have tm: "truthy (maxCacheSize (resolveOptions exExtend exGlobalSized exGet))"
    by (simp add: truthy_def)
  show ?thesis
    by (intro conjI r12(1) sup tm ex_number(1) r12(4) used stored12 r0(3) fell stored0)
qed

section \<open>C10\<close>

text \<open>
  C10. \<^verbatim>\<open>isResponseSizeSupported\<close> is true whenever the measured size is zero, whatever the
  limit, and whenever \<^verbatim>\<open>maxResponseSize\<close> is unset or zero, whatever the size; beyond these
  cases it compares the size with the limit. So a response that is not from the cache, with a
  cacheable method, a current session, a whitelisted content type and a readable body, is
  stored whenever its measured size is zero or the limit is unset or zero, whatever its body
  is.
\<close>

theorem C10_zero_size_passes_size_check:
  fixes X N G resp req sched e
  defines "opts \<equiv> resolveOptions X G req"
  assumes "request resp = Some req" and "\<not> fromCache resp"
    and "isMethodSupported (methods opts) (method req)"
    and "isCurrentSessionId (captureEnv sched opts e) (cacheSessionId req)"
    and "isResponseContentTypeSupported resp (contentTypes opts)"
    and "responseSizeOf N opts resp = 0 \<or> \<not> truthy (maxResponseSize opts)"
  shows "isResponseSizeSupported 0 m
     \<and> (\<not> truthy m \<longrightarrow> isResponseSizeSupported s m)
     \<and> (isResponseSizeSupported s m \<longleftrightarrow> \<not> truthy m \<or> s = 0 \<or> s \<le> valueOf m)
     \<and> CacheSet (requestIdOf opts req) (clone resp) (responseSizeOf N opts resp)
           \<in> set (snd (snd (run sched (cacheResponseInterceptor X N G Readable resp e))))"
proof -
  have el: "eligible opts resp req (responseSizeOf N opts resp) (captureEnv sched opts e)"
    using assms(5,6,7) by (auto simp add: eligible_def)
  have run_eq: "run sched (cacheResponseInterceptor X N G Readable resp e) =
      run sched (capture opts Readable resp req (requestIdOf opts req) (responseSizeOf N opts resp)
        (if sizeConfigured opts then getResponseSizeCalls N Readable resp else [])
        (captureEnv sched opts e))"
    using assms(2,3,4) unfolding opts_def by (simp add: run_response)
  have stored: "CacheSet (requestIdOf opts req) (clone resp) (responseSizeOf N opts resp)
           \<in> set (snd (snd (run sched (cacheResponseInterceptor X N G Readable resp e))))"
    unfolding run_eq run_capture using el by simp
  show ?thesis
    using stored by (simp add: isResponseSizeSupported_def)
qed

theorem C10_zero_size_passes_size_check_witness:
  "request (exResponse (Some (attach (resolveOptions exExtend exGlobalZero exGet) ''s1'' exGet))) = Some (attach (resolveOptions exExtend exGlobalZero exGet) ''s1'' exGet)
   \<and> \<not> fromCache (exResponse (Some (attach (resolveOptions exExtend exGlobalZero exGet) ''s1'' exGet)))
   \<and> isMethodSupported [''get''] ''GET''
   \<and> isCurrentSessionId (resetCacheSession ''s1'' exEnv) (Some ''s1'')
   \<and> maxResponseSize (resolveOptions exExtend exGlobalZero exGet) = Some 0
   \<and> length (body (exResponse (Some (attach (resolveOptions exExtend exGlobalZero exGet) ''s1'' exGet)))) = 5
   \<and> isResponseSizeSupported 0 (Some 3)
   \<and> CacheSet ''/a'' (exResponse None) 0
       \<in> set (snd (snd (run exIdle (cacheResponseInterceptor exExtend exNumber exGlobalZero Readable
           (exResponse (Some (attach (resolveOptions exExtend exGlobalZero exGet) ''s1'' exGet))) (resetCacheSession ''s1'' exEnv)))))"
proof -
  let ?req = "(attach (resolveOptions exExtend exGlobalZero exGet) ''s1'' exGet)"
  have sz: "responseSizeOf exNumber (resolveOptions exExtend exGlobalZero exGet)
              (exResponse (Some ?req)) = 0"
    by (simp add: responseSizeOf_def sizeConfigured_def truthy_def)
  show ?thesis
    using C10_zero_size_passes_size_check
            [where resp = "exResponse (Some ?req)" and req = ?req and X = exExtend and N = exNumber
               and G = exGlobalZero and sched = exIdle and e = "resetCacheSession ''s1'' exEnv"
               and m = "Some 3" and s = 0]
          ex_get_supported ex_json_supported [of "Some ?req"]
    by (simp add: sz captureEnv_def sizeConfigured_def truthy_def isCurrentSessionId_def)
qed

end
